theory Spec2Isabelle
  imports Complex_Main "HOL-Library.Multiset"
begin

section \<open>JavaScript strings\<close>

text \<open>
  A JavaScript string is a sequence of UTF-16 code units. The collection tracker splits
  type lines at the em dash (U+2014) and at Unicode white space, so its strings are
  modelled as lists of code units (natural numbers below 65536) rather than as bytes.
  \<open>js\<close> turns an ASCII literal into such a string.
\<close>

type_synonym jsstring = "nat list"

definition js :: "string \<Rightarrow> jsstring" where
  "js s = map of_char s"

text \<open>
  The code units matched by \<open>\s\<close> in a regular expression and removed by
  \<open>String.prototype.trim\<close>: the ECMAScript WhiteSpace and LineTerminator productions
  (TAB, LF, VT, FF, CR, SP, NBSP, U+1680, U+2000..U+200A, U+2028, U+2029, U+202F, U+205F,
  U+3000, U+FEFF).
\<close>

definition is_space :: "nat \<Rightarrow> bool" where
  "is_space c \<longleftrightarrow>
     c = 9 \<or> c = 10 \<or> c = 11 \<or> c = 12 \<or> c = 13 \<or> c = 32 \<or> c = 160 \<or> c = 5760 \<or>
     (8192 \<le> c \<and> c \<le> 8202) \<or> c = 8232 \<or> c = 8233 \<or> c = 8239 \<or> c = 8287 \<or>
     c = 12288 \<or> c = 65279"

text \<open>\<open>s.trim()\<close>\<close>

definition trim :: "jsstring \<Rightarrow> jsstring" where
  "trim s = rev (dropWhile is_space (rev (dropWhile is_space s)))"

text \<open>
  \<open>s.split(sep)\<close> for a separator of one code unit: the pieces between the occurrences
  of the separator; a string without the separator is the only piece.
\<close>

fun split_unit :: "nat \<Rightarrow> jsstring \<Rightarrow> jsstring list" where
  "split_unit sep [] = [[]]"
| "split_unit sep (c # cs) =
     (if c = sep then [] # split_unit sep cs
      else (case split_unit sep cs of [] \<Rightarrow> [[c]] | w # ws \<Rightarrow> (c # w) # ws))"

text \<open>
  \<open>s.split(/\s+/)\<close>: the pieces between the maximal runs of white space. The empty
  string gives one empty piece; a string that starts or ends with white space gives an
  empty first or last piece.
\<close>

function split_ws :: "jsstring \<Rightarrow> jsstring list" where
  "split_ws [] = [[]]"
| "split_ws (c # cs) =
     (if is_space c then [] # split_ws (dropWhile is_space cs)
      else (case split_ws cs of [] \<Rightarrow> [[c]] | w # ws \<Rightarrow> (c # w) # ws))"
  by pat_completeness auto
termination
  by (relation "measure length") (auto simp: length_dropWhile_le less_Suc_eq_le)

text \<open>\<open>xs.join(sep)\<close> on an array of strings\<close>

fun join :: "jsstring \<Rightarrow> jsstring list \<Rightarrow> jsstring" where
  "join sep [] = []"
| "join sep [w] = w"
| "join sep (w # v # ws) = w @ sep @ join sep (v # ws)"

section \<open>Type permutation\<close>

text \<open>
  \<^verbatim>\<open>const SUPERTYPES = new Set(["Legendary", "Basic", "Snow", "World", "Token", "Elite", "Ongoing"]);\<close>
\<close>

definition SUPERTYPES :: "jsstring list" where
  "SUPERTYPES = map js [''Legendary'', ''Basic'', ''Snow'', ''World'', ''Token'', ''Elite'', ''Ongoing'']"

definition EM_DASH :: nat where
  "EM_DASH = 8212"

text \<open>
  \<^verbatim>\<open>
  function getTypePermutation(typeLine) {
    const superPart = (typeLine || "").split("\<emdash>")[0];
    const words = superPart.trim().split(/\s+/).filter(Boolean);
    const mainTypes = words.filter(w => !SUPERTYPES.has(w));
    return mainTypes.join(" ") || "Other";
  }
  \<close>
  The argument is \<open>None\<close> when the card has no \<open>type_line\<close> property. The first piece
  of a split always exists.
\<close>

definition getTypePermutation :: "jsstring option \<Rightarrow> jsstring" where
  "getTypePermutation typeLine =
     (let superPart = (case split_unit EM_DASH (case typeLine of None \<Rightarrow> [] | Some s \<Rightarrow> s) of
                         [] \<Rightarrow> [] | p # _ \<Rightarrow> p);
          words = filter (\<lambda>w. w \<noteq> []) (split_ws (trim superPart));
          mainTypes = filter (\<lambda>w. w \<notin> set SUPERTYPES) words;
          joined = join (js '' '') mainTypes
      in if joined = [] then js ''Other'' else joined)"

text \<open>
  The words of the specification: the maximal runs of code units that are not white space,
  and the part of a type line before the separator.
\<close>

function words_of :: "jsstring \<Rightarrow> jsstring list" where
  "words_of s =
     (case dropWhile is_space s of
        [] \<Rightarrow> []
      | c # cs \<Rightarrow> (c # takeWhile (\<lambda>x. \<not> is_space x) cs) #
                  words_of (dropWhile (\<lambda>x. \<not> is_space x) cs))"
  by pat_completeness auto
termination
proof (relation "measure length")
  fix s :: jsstring and c cs
  assume d: "dropWhile is_space s = c # cs"
  have "length (dropWhile (\<lambda>x. \<not> is_space x) cs) \<le> length cs"
    by (rule length_dropWhile_le)
  also have "length cs < length (dropWhile is_space s)"
    using d by simp
  also have "\<dots> \<le> length s"
    by (rule length_dropWhile_le)
  finally show "(dropWhile (\<lambda>x. \<not> is_space x) cs, s) \<in> measure length"
    by simp
qed simp

declare words_of.simps [simp del]

definition before_separator :: "jsstring \<Rightarrow> jsstring" where
  "before_separator s = takeWhile (\<lambda>c. c \<noteq> EM_DASH) s"

definition type_permutation_spec :: "jsstring \<Rightarrow> jsstring" where
  "type_permutation_spec typeLine =
     (let ws = filter (\<lambda>w. w \<notin> set SUPERTYPES) (words_of (before_separator typeLine))
      in if ws = [] then js ''Other'' else join (js '' '') ws)"

section \<open>JavaScript values used by the tracker\<close>

text \<open>
  \<open>x || d\<close> on a string that may be \<open>undefined\<close>: \<open>undefined\<close> and the empty string
  are falsy.
\<close>

definition or_str :: "jsstring option \<Rightarrow> jsstring \<Rightarrow> jsstring" where
  "or_str x d = (case x of None \<Rightarrow> d | Some s \<Rightarrow> if s = [] then d else s)"

text \<open>
  \<open>x || d\<close> on a number: \<open>0\<close> is falsy. Quantities are mathematical integers here:
  the tracker only ever stores integers, and \<open>NaN\<close> is a separate value (\<open>None\<close> below).
\<close>

definition num_or :: "int \<Rightarrow> int \<Rightarrow> int" where
  "num_or x d = (if x = 0 then d else x)"

text \<open>
  A JavaScript number is a double. Every integer up to \<open>2^53\<close> in magnitude is one; a
  larger integer is rounded to the nearest double, which keeps 53 significant bits, a tie
  going to the even one. \<open>a + b\<close> is the exact sum, rounded. (Magnitudes from \<open>2^1024\<close>
  on, which are \<open>Infinity\<close>, are not modelled; no sum of two quantities reaches them.)
\<close>

fun bit_length :: "nat \<Rightarrow> nat" where
  "bit_length n = (if n = 0 then 0 else Suc (bit_length (n div 2)))"

declare bit_length.simps [simp del]

definition double_round :: "int \<Rightarrow> int" where
  "double_round x =
     (let a = nat \<bar>x\<bar>
      in if a \<le> 2 ^ 53 then x
         else
           (let m = 2 ^ (bit_length a - 53);
                q = a div m;
                r = a mod m;
                n = (if m < 2 * r \<or> (2 * r = m \<and> odd q) then (q + 1) * m else q * m)
            in if x < 0 then - int n else int n))"

definition js_add :: "int \<Rightarrow> int \<Rightarrow> int" where
  "js_add a b = double_round (a + b)"

text \<open>
  A sheet row is an array of cells. The Sheets API leaves trailing empty cells out, so a
  row may be short; \<open>row[i]\<close> beyond the end is \<open>undefined\<close>. A row built by
  \<open>cardToRow\<close> or \<open>deckToRow\<close> holds \<open>undefined\<close> where the entity has no such property.
\<close>

type_synonym row = "jsstring option list"

definition cell :: "row \<Rightarrow> nat \<Rightarrow> jsstring option" where
  "cell r i = (if i < length r then r ! i else None)"

text \<open>
  \<open>String(n)\<close> for an integer \<open>n\<close> of at most \<open>2^53\<close> in magnitude: its decimal digits.
  (JavaScript prints a larger double with the fewest digits that identify it, and in
  exponent form from \<open>10^21\<close> on; the theorems that use \<open>String_int\<close> keep below \<open>2^53\<close>.)
\<close>

fun digits :: "nat \<Rightarrow> jsstring" where
  "digits n = (if n < 10 then [48 + n] else digits (n div 10) @ [48 + n mod 10])"

declare digits.simps [simp del]

definition String_int :: "int \<Rightarrow> jsstring" where
  "String_int i = (if i < 0 then 45 # digits (nat (- i)) else digits (nat i))"

text \<open>
  \<open>parseInt(x)\<close> without a radix: leading white space is skipped, then an optional sign,
  then an optional \<open>0x\<close> or \<open>0X\<close> that selects radix 16, then the longest run of digits
  of the radix. Without a digit the result is \<open>NaN\<close> (\<open>None\<close>), as it is for
  \<open>undefined\<close>, whose string form has no digit. The result is the integer that the digits
  denote, which is the number JavaScript returns when it is at most \<open>2^53\<close> in magnitude.
\<close>

definition is_digit :: "nat \<Rightarrow> nat \<Rightarrow> bool" where
  "is_digit radix c \<longleftrightarrow>
     (48 \<le> c \<and> c \<le> 57) \<or> (radix = 16 \<and> ((97 \<le> c \<and> c \<le> 102) \<or> (65 \<le> c \<and> c \<le> 70)))"

definition digit_val :: "nat \<Rightarrow> nat" where
  "digit_val c = (if c \<le> 57 then c - 48 else if 97 \<le> c then c - 87 else c - 55)"

definition parseInt :: "jsstring option \<Rightarrow> int option" where
  "parseInt x =
     (case x of
        None \<Rightarrow> None
      | Some s \<Rightarrow>
          (let s0 = dropWhile is_space s;
               neg = (case s0 of [] \<Rightarrow> False | c # _ \<Rightarrow> c = 45);
               s1 = (case s0 of [] \<Rightarrow> [] | c # cs \<Rightarrow> if c = 45 \<or> c = 43 then cs else s0);
               hex = (case s1 of a # b # _ \<Rightarrow> a = 48 \<and> (b = 120 \<or> b = 88) | _ \<Rightarrow> False);
               radix = (if hex then 16 else 10);
               s2 = (if hex then drop 2 s1 else s1);
               ds = takeWhile (is_digit radix) s2;
               n = foldl (\<lambda>a c. a * radix + digit_val c) 0 ds
           in if ds = [] then None else Some (if neg then - int n else int n)))"

text \<open>\<open>parseInt(x) || 1\<close>: \<open>NaN\<close> and \<open>0\<close> are falsy.\<close>

definition parseInt_or_1 :: "jsstring option \<Rightarrow> int" where
  "parseInt_or_1 x = (case parseInt x of None \<Rightarrow> 1 | Some n \<Rightarrow> num_or n 1)"

section \<open>JSON values\<close>

text \<open>
  The values that \<open>JSON.parse\<close> returns and \<open>JSON.stringify\<close> prints. Numbers are
  integers: the tracker's own data (quantities, time stamps) are, and the other numbers
  of a card payload are never read by the functions modelled here. An object is the list
  of its members in insertion order.
\<close>

datatype json =
    JNull
  | JBool bool
  | JNum int
  | JStr jsstring
  | JArr "json list"
  | JObj "(jsstring \<times> json) list"

text \<open>
  \<open>v.k\<close> for a parsed value: the member of an object (the last one, where a text repeats
  a key); \<open>undefined\<close> on anything else, for the property names used here.
\<close>

definition get_prop :: "json \<Rightarrow> jsstring \<Rightarrow> json option" where
  "get_prop v k = (case v of JObj kvs \<Rightarrow> map_of (rev kvs) k | _ \<Rightarrow> None)"

definition str_prop :: "json \<Rightarrow> jsstring \<Rightarrow> jsstring option" where
  "str_prop v k = (case get_prop v k of Some (JStr s) \<Rightarrow> Some s | _ \<Rightarrow> None)"

definition int_prop :: "json \<Rightarrow> jsstring \<Rightarrow> int option" where
  "int_prop v k = (case get_prop v k of Some (JNum n) \<Rightarrow> Some n | _ \<Rightarrow> None)"

text \<open>Truthiness of a parsed value that may be \<open>undefined\<close>\<close>

definition truthy :: "json option \<Rightarrow> bool" where
  "truthy x =
     (case x of
        None \<Rightarrow> False
      | Some JNull \<Rightarrow> False
      | Some (JBool b) \<Rightarrow> b
      | Some (JNum n) \<Rightarrow> n \<noteq> 0
      | Some (JStr s) \<Rightarrow> s \<noteq> []
      | Some _ \<Rightarrow> True)"

section \<open>Data model\<close>

text \<open>
  A collection card is a Scryfall card object with \<open>qty\<close> and \<open>addedAt\<close> added. The
  record holds the properties that the functions below read; \<open>id\<close> and \<open>name\<close> are
  \<open>None\<close> when the object has no such property (a card decoded from an empty payload
  has neither), the other strings are empty when absent, since the code reads them
  through \<open>|| ""\<close> only. Identifiers and names are strings.
\<close>

record card =
  card_id :: "jsstring option"
  card_name :: "jsstring option"
  set_name :: jsstring
  set_code :: jsstring
  collector_number :: jsstring
  color_identity :: "jsstring list"
  prices :: "json option"
  qty :: int
  addedAt :: "int option"

text \<open>A deck entry \<^verbatim>\<open>{ collectionId, qty }\<close> and a deck.\<close>

record deck_entry =
  collectionId :: "jsstring option"
  entry_qty :: int

record deck =
  deck_id :: "jsstring option"
  deck_name :: "jsstring option"
  format :: jsstring
  commander :: jsstring
  cards :: "deck_entry list"

text \<open>
  The typed reading of a parsed value: \<open>card_of_json v\<close> is the object \<^verbatim>\<open>{ ...v }\<close>
  seen through the properties of the record, and \<open>json_of_card\<close> is the object as
  \<open>JSON.stringify\<close> sees it (a property that is \<open>undefined\<close> is left out).
\<close>

definition strings_of :: "json list \<Rightarrow> jsstring list" where
  "strings_of xs = List.map_filter (\<lambda>x. case x of JStr s \<Rightarrow> Some s | _ \<Rightarrow> None) xs"

definition card_of_json :: "json \<Rightarrow> card" where
  "card_of_json v =
     \<lparr> card_id = str_prop v (js ''id''),
       card_name = str_prop v (js ''name''),
       set_name = or_str (str_prop v (js ''set_name'')) [],
       set_code = or_str (str_prop v (js ''set'')) [],
       collector_number = or_str (str_prop v (js ''collector_number'')) [],
       color_identity = (case get_prop v (js ''color_identity'') of Some (JArr xs) \<Rightarrow> strings_of xs | _ \<Rightarrow> []),
       prices = get_prop v (js ''prices''),
       qty = (case int_prop v (js ''qty'') of None \<Rightarrow> 0 | Some n \<Rightarrow> n),
       addedAt = int_prop v (js ''addedAt'') \<rparr>"

definition opt_member :: "jsstring \<Rightarrow> json option \<Rightarrow> (jsstring \<times> json) list" where
  "opt_member k x = (case x of None \<Rightarrow> [] | Some v \<Rightarrow> [(k, v)])"

definition json_of_card :: "card \<Rightarrow> json" where
  "json_of_card c =
     JObj (opt_member (js ''id'') (map_option JStr (card_id c)) @
           opt_member (js ''name'') (map_option JStr (card_name c)) @
           [(js ''set_name'', JStr (set_name c)),
            (js ''set'', JStr (set_code c)),
            (js ''collector_number'', JStr (collector_number c)),
            (js ''color_identity'', JArr (map JStr (color_identity c)))] @
           opt_member (js ''prices'') (prices c) @
           [(js ''qty'', JNum (qty c))] @
           opt_member (js ''addedAt'') (map_option JNum (addedAt c)))"

definition entry_of_json :: "json \<Rightarrow> deck_entry" where
  "entry_of_json v =
     \<lparr> collectionId = str_prop v (js ''collectionId''),
       entry_qty = (case int_prop v (js ''qty'') of None \<Rightarrow> 0 | Some n \<Rightarrow> n) \<rparr>"

definition json_of_entry :: "deck_entry \<Rightarrow> json" where
  "json_of_entry e =
     JObj (opt_member (js ''collectionId'') (map_option JStr (collectionId e)) @
           [(js ''qty'', JNum (entry_qty e))])"

text \<open>
  The card list of a deck is an array of entries. A parsed value that is not an array has
  no typed counterpart; it is read as the empty list.
\<close>

definition entries_of_json :: "json \<Rightarrow> deck_entry list" where
  "entries_of_json v = (case v of JArr xs \<Rightarrow> map entry_of_json xs | _ \<Rightarrow> [])"

definition json_of_entries :: "deck_entry list \<Rightarrow> json" where
  "json_of_entries es = JArr (map json_of_entry es)"

section \<open>Tabular codec\<close>

text \<open>
  \<open>JSON.parse\<close> and \<open>JSON.stringify\<close> belong to the platform, so the codec takes them as
  parameters: \<open>parse s\<close> is \<open>None\<close> where \<open>JSON.parse(s)\<close> throws a \<open>SyntaxError\<close>.
  A \<open>null\<close> result of a decoder is \<open>None\<close>.
\<close>

type_synonym json_parse = "jsstring \<Rightarrow> json option"
type_synonym json_stringify = "json \<Rightarrow> jsstring"

definition or_json :: "json option \<Rightarrow> json \<Rightarrow> json" where
  "or_json x d = (case x of None \<Rightarrow> d | Some v \<Rightarrow> if truthy (Some v) then v else d)"

text \<open>
  \<^verbatim>\<open>
  function cardToRow(card) {
    return [
      card.id,
      card.name,
      card.set_name || "",
      card.set || "",
      card.collector_number || "",
      String(card.qty || 1),
      JSON.stringify(card.prices || {}),
      JSON.stringify(card), // full card blob
    ];
  }
  \<close>
\<close>

definition cardToRow :: "json_stringify \<Rightarrow> card \<Rightarrow> row" where
  "cardToRow stringify c =
     [ card_id c,
       card_name c,
       Some (or_str (Some (set_name c)) []),
       Some (or_str (Some (set_code c)) []),
       Some (or_str (Some (collector_number c)) []),
       Some (String_int (num_or (qty c) 1)),
       Some (stringify (or_json (prices c) (JObj []))),
       Some (stringify (json_of_card c)) ]"

text \<open>
  \<^verbatim>\<open>
  function rowToCard(row) {
    try {
      const full = JSON.parse(row[7] || "{}");
      return { ...full, qty: parseInt(row[5]) || 1 };
    } catch { return null; }
  }
  \<close>
\<close>

definition rowToCard :: "json_parse \<Rightarrow> row \<Rightarrow> card option" where
  "rowToCard parse r =
     (case parse (or_str (cell r 7) (js ''{}'')) of
        None \<Rightarrow> None
      | Some full \<Rightarrow> Some ((card_of_json full)\<lparr> qty := parseInt_or_1 (cell r 5) \<rparr>))"

text \<open>
  \<^verbatim>\<open>
  function deckToRow(deck, collection) {
    const commanderName = deck.commander
      ? (collection?.find(c => c.id === deck.commander)?.name || "")
      : "";
    return [deck.id, deck.name, deck.format || "", commanderName, JSON.stringify(deck.cards)];
  }
  \<close>
\<close>

definition deckToRow :: "json_stringify \<Rightarrow> deck \<Rightarrow> card list \<Rightarrow> row" where
  "deckToRow stringify d collection =
     (let commanderName =
            (if commander d \<noteq> []
             then or_str (case find (\<lambda>c. card_id c = Some (commander d)) collection of
                            None \<Rightarrow> None | Some c \<Rightarrow> card_name c) []
             else [])
      in [ deck_id d, deck_name d, Some (or_str (Some (format d)) []), Some commanderName,
           Some (stringify (json_of_entries (cards d))) ])"

text \<open>
  \<^verbatim>\<open>
  function rowToDeck(row, collection) {
    try {
      const commanderName = row[3] || "";
      const commanderId = commanderName
        ? (collection?.find(c => c.name === commanderName)?.id || "")
        : "";
      return { id: row[0], name: row[1], format: row[2] || "Standard", commander: commanderId,
               cards: JSON.parse(row[4] || "[]") };
    } catch { return null; }
  }
  \<close>
\<close>

definition rowToDeck :: "json_parse \<Rightarrow> row \<Rightarrow> card list \<Rightarrow> deck option" where
  "rowToDeck parse r collection =
     (let commanderName = or_str (cell r 3) [];
          commanderId =
            (if commanderName \<noteq> []
             then or_str (case find (\<lambda>c. card_name c = Some commanderName) collection of
                            None \<Rightarrow> None | Some c \<Rightarrow> card_id c) []
             else [])
      in case parse (or_str (cell r 4) (js ''[]'')) of
           None \<Rightarrow> None
         | Some v \<Rightarrow>
             Some \<lparr> deck_id = cell r 0, deck_name = cell r 1,
                    format = or_str (cell r 2) (js ''Standard''),
                    commander = commanderId, cards = entries_of_json v \<rparr>)"

text \<open>
  The commander of a deck survives the way through its name when there is none, or when
  the commander card has a non-empty name and the first card of the collection with that
  name is the commander card.
\<close>

definition commander_resolves :: "deck \<Rightarrow> card list \<Rightarrow> bool" where
  "commander_resolves d coll \<longleftrightarrow>
     commander d = [] \<or>
     (case find (\<lambda>c. card_id c = Some (commander d)) coll of
        None \<Rightarrow> False
      | Some cc \<Rightarrow>
          (case card_name cc of
             None \<Rightarrow> False
           | Some n \<Rightarrow>
               n \<noteq> [] \<and>
               (case find (\<lambda>c. card_name c = Some n) coll of
                  None \<Rightarrow> False
                | Some cf \<Rightarrow> card_id cf = Some (commander d))))"

section \<open>Sync controller\<close>

datatype sync_status = Idle | Loading | Saving | Error | Unconfigured

record app_state =
  collection :: "card list"
  decks :: "deck list"
  syncStatus :: sync_status
  syncMsg :: jsstring

text \<open>
  \<^verbatim>\<open>
  const addToCollection = useCallback((card) => {
    setCollection(prev => {
      const next = prev.find(c => c.id === card.id)
        ? prev.map(c => c.id === card.id ? { ...c, qty: (c.qty || 1) + 1 } : c)
        : [...prev, { ...card, qty: 1, addedAt: Date.now() }];
      setTimeout(triggerSave, 0);
      return next;
    });
  }, [triggerSave]);
  \<close>
  The updater, with the card (\<open>newCard\<close>) and the value of \<open>Date.now()\<close> as arguments. A found card is an object,
  which is truthy.
\<close>

definition addToCollection :: "card \<Rightarrow> int \<Rightarrow> card list \<Rightarrow> card list" where
  "addToCollection newCard now prev =
     (if find (\<lambda>c. card_id c = card_id newCard) prev \<noteq> None
      then map (\<lambda>c. if card_id c = card_id newCard then c\<lparr> qty := js_add (num_or (qty c) 1) 1 \<rparr> else c) prev
      else prev @ [newCard\<lparr> qty := 1, addedAt := Some now \<rparr>])"

text \<open>
  \<^verbatim>\<open>
  const removeFromCollection = useCallback((cardId) => {
    setCollection(prev => { const n = prev.filter(c => c.id !== cardId); setTimeout(triggerSave, 0); return n; });
    setDecks(prev => { const n = prev.map(d => ({ ...d, cards: d.cards.filter(c => c.collectionId !== cardId) })); setTimeout(triggerSave, 0); return n; });
  }, [triggerSave]);
  \<close>
\<close>

definition removeFromCollection :: "jsstring option \<Rightarrow> app_state \<Rightarrow> app_state" where
  "removeFromCollection cardId st =
     st\<lparr> collection := filter (\<lambda>c. card_id c \<noteq> cardId) (collection st),
         decks := map (\<lambda>d. d\<lparr> cards := filter (\<lambda>c. collectionId c \<noteq> cardId) (cards d) \<rparr>) (decks st) \<rparr>"

text \<open>
  \<open>Promise.all\<close> of the two range reads. A read that fails is \<open>Inl\<close> of the message of
  the error thrown by \<open>sheetsGet\<close>. When both reads fail the promise rejects with the
  error of whichever read failed first, which the argument \<open>collFirst\<close> tells.
\<close>

definition promise_all ::
  "jsstring + row list \<Rightarrow> jsstring + row list \<Rightarrow> bool \<Rightarrow> jsstring + (row list \<times> row list)" where
  "promise_all collRes deckRes collFirst =
     (case (collRes, deckRes) of
        (Inr collRows, Inr deckRows) \<Rightarrow> Inr (collRows, deckRows)
      | (Inl e, Inr _) \<Rightarrow> Inl e
      | (Inr _, Inl e) \<Rightarrow> Inl e
      | (Inl e1, Inl e2) \<Rightarrow> Inl (if collFirst then e1 else e2))"

text \<open>
  \<^verbatim>\<open>
  const loadFromSheets = async () => {
    setSyncStatus("loading");
    setSyncMsg("Loading from Google Sheets...");
    try {
      const [collRows, deckRows] = await Promise.all([
        sheetsGet("Collection!A2:H1000"),
        sheetsGet("Decks!A2:E1000"),
      ]);
      const cards = collRows.map(rowToCard).filter(Boolean);
      const dks = deckRows.map(row => rowToDeck(row, cards)).filter(Boolean);
      setCollection(cards);
      setDecks(dks);
      setSyncStatus("idle");
      setSyncMsg(`Loaded ${cards.length} cards`);
    } catch (e) {
      setSyncStatus("error");
      setSyncMsg(`Load failed: ${e.message}`);
    }
  };
  \<close>
\<close>

definition loadFromSheets ::
  "json_parse \<Rightarrow> jsstring + row list \<Rightarrow> jsstring + row list \<Rightarrow> bool \<Rightarrow> app_state \<Rightarrow> app_state" where
  "loadFromSheets parse collRes deckRes collFirst st =
     (let st1 = st\<lparr> syncStatus := Loading, syncMsg := js ''Loading from Google Sheets...'' \<rparr>
      in case promise_all collRes deckRes collFirst of
           Inr (collRows, deckRows) \<Rightarrow>
             (let cs = List.map_filter (rowToCard parse) collRows;
                  dks = List.map_filter (\<lambda>r. rowToDeck parse r cs) deckRows
              in st1\<lparr> collection := cs, decks := dks, syncStatus := Idle,
                      syncMsg := js ''Loaded '' @ String_int (int (length cs)) @ js '' cards'' \<rparr>)
         | Inl message \<Rightarrow>
             st1\<lparr> syncStatus := Error, syncMsg := js ''Load failed: '' @ message \<rparr>)"

section \<open>Deck color identity\<close>

text \<open>\<open>s.add(x)\<close> on a \<open>Set\<close>, kept in insertion order\<close>

definition set_add :: "'a list \<Rightarrow> 'a \<Rightarrow> 'a list" where
  "set_add s x = (if x \<in> set s then s else s @ [x])"

text \<open>
  \<^verbatim>\<open>
  const deckCards = deck.cards.map(c => ({ ...collection.find(col => col.id === c.collectionId), deckQty: c.qty })).filter(c => c.id);
  \<close>
  The cards of the deck that the collection holds, each with its quantity in the deck.
  An entry whose card is not found gives an object without \<open>id\<close>, which the filter drops,
  as it drops a card whose \<open>id\<close> is the empty string.
\<close>

definition deckCards :: "deck \<Rightarrow> card list \<Rightarrow> (card \<times> int) list" where
  "deckCards d coll =
     List.map_filter
       (\<lambda>c. case find (\<lambda>col. card_id col = collectionId c) coll of
               None \<Rightarrow> None
             | Some col \<Rightarrow> if or_str (card_id col) [] \<noteq> [] then Some (col, entry_qty c) else None)
       (cards d)"

text \<open>
  \<^verbatim>\<open>
  const commanderCard = deck.commander ? collection.find(c => c.id === deck.commander) : null;
  \<close>
\<close>

definition commanderCard :: "deck \<Rightarrow> card list \<Rightarrow> card option" where
  "commanderCard d coll =
     (if commander d \<noteq> [] then find (\<lambda>c. card_id c = Some (commander d)) coll else None)"

text \<open>
  \<^verbatim>\<open>
  const deckColorIdentity = (() => {
    const s = new Set();
    if (deck.format === "Commander" && commanderCard) {
      (commanderCard.color_identity || []).forEach(ci => s.add(ci));
    } else {
      deckCards.forEach(c => (c.color_identity || []).forEach(ci => s.add(ci)));
    }
    return s;
  })();
  \<close>
\<close>

definition deckColorIdentity :: "deck \<Rightarrow> card list \<Rightarrow> jsstring list" where
  "deckColorIdentity d coll =
     (case (if format d = js ''Commander'' then commanderCard d coll else None) of
        Some cc \<Rightarrow> foldl set_add [] (color_identity cc)
      | None \<Rightarrow> foldl (\<lambda>s (c, _). foldl set_add s (color_identity c)) [] (deckCards d coll))"

text \<open>
  The words of the specification. A deck entry or a commander reference refers to the
  first card of the collection with that identifier (the only one, when identifiers are
  unique). The member cards of a deck are the cards that its entries refer to and that
  have a non-empty identifier; the member colors are the colors of their identities.
\<close>

definition is_first_with_id :: "card list \<Rightarrow> jsstring option \<Rightarrow> card \<Rightarrow> bool" where
  "is_first_with_id coll k c \<longleftrightarrow>
     (\<exists>i < length coll. coll ! i = c \<and> card_id c = k \<and> (\<forall>j < i. card_id (coll ! j) \<noteq> k))"

definition is_member_card :: "deck \<Rightarrow> card list \<Rightarrow> card \<Rightarrow> bool" where
  "is_member_card d coll c \<longleftrightarrow>
     (\<exists>e \<in> set (cards d). is_first_with_id coll (collectionId e) c) \<and>
     (\<exists>s. card_id c = Some s \<and> s \<noteq> [])"

definition member_colors :: "deck \<Rightarrow> card list \<Rightarrow> jsstring set" where
  "member_colors d coll = {ci. \<exists>c. is_member_card d coll c \<and> ci \<in> set (color_identity c)}"

section \<open>A reference \<open>JSON.parse\<close> and \<open>JSON.stringify\<close>\<close>

text \<open>
  The codec is verified for any \<open>JSON.parse\<close> and \<open>JSON.stringify\<close>. To run it on
  concrete rows, this section gives the two functions for the JSON texts whose numbers are
  integers (RFC 8259 without fractions and exponents): objects, arrays, strings with
  their escapes, integers, \<open>true\<close>, \<open>false\<close> and \<open>null\<close>. Strings are taken to be
  well-formed UTF-16, which \<open>JSON.stringify\<close> prints without \<open>\u\<close> escapes above U+001F.
\<close>

definition json_ws :: "nat \<Rightarrow> bool" where
  "json_ws c \<longleftrightarrow> c = 32 \<or> c = 9 \<or> c = 10 \<or> c = 13"

fun strip_prefix :: "jsstring \<Rightarrow> jsstring \<Rightarrow> jsstring option" where
  "strip_prefix [] s = Some s"
| "strip_prefix (p # ps) [] = None"
| "strip_prefix (p # ps) (c # cs) = (if p = c then strip_prefix ps cs else None)"

definition hex_val :: "nat \<Rightarrow> nat option" where
  "hex_val c = (if is_digit 16 c then Some (digit_val c) else None)"

text \<open>The code unit that \<open>\e\<close> stands for in a JSON string\<close>

definition unescape :: "nat \<Rightarrow> nat option" where
  "unescape e =
     (if e = 34 \<or> e = 92 \<or> e = 47 then Some e
      else if e = 98 then Some 8
      else if e = 102 then Some 12
      else if e = 110 then Some 10
      else if e = 114 then Some 13
      else if e = 116 then Some 9
      else None)"

text \<open>The characters of a string after its opening quote, and the text after its closing quote\<close>

fun parse_chars :: "jsstring \<Rightarrow> (jsstring \<times> jsstring) option" where
  "parse_chars [] = None"
| "parse_chars (c # cs) =
     (if c = 34 then Some ([], cs)
      else if c < 32 then None
      else if c = 92 then
        (case cs of
           [] \<Rightarrow> None
         | e # r \<Rightarrow>
             if e = 117 then
               (case r of
                  h1 # h2 # h3 # h4 # r' \<Rightarrow>
                    (case (hex_val h1, hex_val h2, hex_val h3, hex_val h4) of
                       (Some a, Some b, Some c', Some d) \<Rightarrow>
                         map_option (\<lambda>(s, t). ((((a * 16 + b) * 16 + c') * 16 + d) # s, t)) (parse_chars r')
                     | _ \<Rightarrow> None)
                | _ \<Rightarrow> None)
             else
               (case unescape e of
                  None \<Rightarrow> None
                | Some x \<Rightarrow> map_option (\<lambda>(s, t). (x # s, t)) (parse_chars r)))
      else map_option (\<lambda>(s, t). (c # s, t)) (parse_chars cs))"

text \<open>An integer: an optional minus sign, then \<open>0\<close> or digits that do not start with \<open>0\<close>\<close>

definition parse_number :: "jsstring \<Rightarrow> (json \<times> jsstring) option" where
  "parse_number s =
     (let neg = (case s of [] \<Rightarrow> False | c # _ \<Rightarrow> c = 45);
          s1 = (if neg then tl s else s);
          ds = takeWhile (is_digit 10) s1;
          rest = dropWhile (is_digit 10) s1;
          n = foldl (\<lambda>a c. a * 10 + digit_val c) 0 ds
      in if ds = [] \<or> (1 < length ds \<and> hd ds = 48) then None
         else if (case rest of [] \<Rightarrow> False | c # _ \<Rightarrow> c = 46 \<or> c = 101 \<or> c = 69) then None
         else Some (JNum (if neg then - int n else int n), rest))"

text \<open>
  The value at the start of a text. The first argument bounds the depth of the recursion;
  \<open>JSON_parse\<close> passes a list longer than the text, and every recursive call comes after
  a code unit of the text has been read.
\<close>

fun parse_value :: "nat list \<Rightarrow> jsstring \<Rightarrow> (json \<times> jsstring) option"
  and parse_elements :: "nat list \<Rightarrow> jsstring \<Rightarrow> (json list \<times> jsstring) option"
  and parse_members :: "nat list \<Rightarrow> jsstring \<Rightarrow> ((jsstring \<times> json) list \<times> jsstring) option"
  where
  "parse_value [] s = None"
| "parse_value (f # fuel) s =
     (case dropWhile json_ws s of
        [] \<Rightarrow> None
      | c # cs \<Rightarrow>
          if c = 34 then map_option (\<lambda>(x, r). (JStr x, r)) (parse_chars cs)
          else if c = 91 then
            (case dropWhile json_ws cs of
               [] \<Rightarrow> None
             | d # ds \<Rightarrow> if d = 93 then Some (JArr [], ds)
                         else map_option (\<lambda>(xs, r). (JArr xs, r)) (parse_elements fuel cs))
          else if c = 123 then
            (case dropWhile json_ws cs of
               [] \<Rightarrow> None
             | d # ds \<Rightarrow> if d = 125 then Some (JObj [], ds)
                         else map_option (\<lambda>(ms, r). (JObj ms, r)) (parse_members fuel cs))
          else if c = 116 then map_option (Pair (JBool True)) (strip_prefix (js ''rue'') cs)
          else if c = 102 then map_option (Pair (JBool False)) (strip_prefix (js ''alse'') cs)
          else if c = 110 then map_option (Pair JNull) (strip_prefix (js ''ull'') cs)
          else parse_number (c # cs))"
| "parse_elements [] s = None"
| "parse_elements (f # fuel) s =
     (case parse_value fuel s of
        None \<Rightarrow> None
      | Some (v, r) \<Rightarrow>
          (case dropWhile json_ws r of
             [] \<Rightarrow> None
           | c # cs \<Rightarrow> if c = 93 then Some ([v], cs)
                       else if c = 44 then map_option (\<lambda>(vs, r'). (v # vs, r')) (parse_elements fuel cs)
                       else None))"
| "parse_members [] s = None"
| "parse_members (f # fuel) s =
     (case dropWhile json_ws s of
        [] \<Rightarrow> None
      | c # cs \<Rightarrow>
          if c \<noteq> 34 then None
          else
            (case parse_chars cs of
               None \<Rightarrow> None
             | Some (k, r) \<Rightarrow>
                 (case dropWhile json_ws r of
                    [] \<Rightarrow> None
                  | c2 # r2 \<Rightarrow>
                      if c2 \<noteq> 58 then None
                      else
                        (case parse_value fuel r2 of
                           None \<Rightarrow> None
                         | Some (v, r3) \<Rightarrow>
                             (case dropWhile json_ws r3 of
                                [] \<Rightarrow> None
                              | c3 # r4 \<Rightarrow>
                                  if c3 = 125 then Some ([(k, v)], r4)
                                  else if c3 = 44 then
                                    map_option (\<lambda>(ms, r'). ((k, v) # ms, r')) (parse_members fuel r4)
                                  else None)))))"

definition JSON_parse :: json_parse where
  "JSON_parse s =
     (case parse_value (0 # s) s of
        None \<Rightarrow> None
      | Some (v, r) \<Rightarrow> if dropWhile json_ws r = [] then Some v else None)"

definition hex_digit :: "nat \<Rightarrow> nat" where
  "hex_digit d = (if d < 10 then 48 + d else 87 + d)"

definition escape_unit :: "nat \<Rightarrow> jsstring" where
  "escape_unit c =
     (if c = 34 then [92, 34]
      else if c = 92 then [92, 92]
      else if c = 8 then [92, 98]
      else if c = 12 then [92, 102]
      else if c = 10 then [92, 110]
      else if c = 13 then [92, 114]
      else if c = 9 then [92, 116]
      else if c < 32 then [92, 117, 48, 48, hex_digit (c div 16), hex_digit (c mod 16)]
      else [c])"

definition quote :: "jsstring \<Rightarrow> jsstring" where
  "quote s = 34 # concat (map escape_unit s) @ [34]"

fun JSON_stringify :: json_stringify where
  "JSON_stringify JNull = js ''null''"
| "JSON_stringify (JBool b) = (if b then js ''true'' else js ''false'')"
| "JSON_stringify (JNum n) = String_int n"
| "JSON_stringify (JStr s) = quote s"
| "JSON_stringify (JArr xs) = 91 # join [44] (map JSON_stringify xs) @ [93]"
| "JSON_stringify (JObj ms) =
     123 # join [44] (map (\<lambda>(k, v). quote k @ 58 # JSON_stringify v) ms) @ [125]"

section \<open>Combo scoring\<close>

















section \<open>Debounced save\<close>

text \<open>
  The page as the save timer sees it: whether the sheet is configured, the state that
  \<open>collectionRef\<close> and \<open>decksRef\<close> point to, the time in milliseconds, the pending timers
  of \<open>setTimeout\<close> (identifier and due time; the only callback ever scheduled with a
  delay is the save), the identifier held by \<open>saveTimeout.current\<close>, and the calls of
  \<open>saveToSheets\<close> made so far with their arguments.
\<close>

record page =
  isConfigured :: bool
  app :: app_state
  clock :: nat
  nextTimerId :: nat
  timers :: "(nat \<times> nat) list"
  saveTimeout :: "nat option"
  saves :: "(card list \<times> deck list) list"

text \<open>
  \<^verbatim>\<open>
  const triggerSave = useCallback(() => {
    if (!isConfigured) return;
    clearTimeout(saveTimeout.current);
    saveTimeout.current = setTimeout(() => {
      saveToSheets(collectionRef.current, decksRef.current);
    }, 1500);
  }, [saveToSheets, isConfigured]);
  \<close>
\<close>

definition triggerSave :: "page \<Rightarrow> page" where
  "triggerSave p =
     (if \<not> isConfigured p then p
      else p\<lparr> timers := filter (\<lambda>(i, due). Some i \<noteq> saveTimeout p) (timers p)
                            @ [(nextTimerId p, clock p + 1500)],
               saveTimeout := Some (nextTimerId p),
               nextTimerId := nextTimerId p + 1 \<rparr>)"

text \<open>
  \<^verbatim>\<open>
  const saveToSheets = useCallback(async (col, dks) => {
    if (!isConfigured) return;
    setSyncStatus("saving");
    setSyncMsg("Saving...");
    requestToken(async (token) => { ... });
  }, [isConfigured]);
  \<close>
  The call is recorded with its arguments; the token and the requests that follow are
  outside this model.
\<close>

definition saveToSheets :: "card list \<Rightarrow> deck list \<Rightarrow> page \<Rightarrow> page" where
  "saveToSheets col dks p =
     (if \<not> isConfigured p then p
      else p\<lparr> app := (app p)\<lparr> syncStatus := Saving, syncMsg := js ''Saving...'' \<rparr>,
               saves := saves p @ [(col, dks)] \<rparr>)"

text \<open>
  Time passes until \<open>t\<close>: every pending timer that is due runs its callback, which saves
  the state the references point to at that moment.
\<close>

definition advance :: "nat \<Rightarrow> page \<Rightarrow> page" where
  "advance t p =
     (let due = filter (\<lambda>(i, d). d \<le> t) (timers p);
          p1 = p\<lparr> timers := filter (\<lambda>(i, d). \<not> d \<le> t) (timers p) \<rparr>;
          p2 = foldl (\<lambda>q _. saveToSheets (collection (app q)) (decks (app q)) q) p1 due
      in p2\<lparr> clock := max (clock p) t \<rparr>)"

text \<open>
  A mutating operation at time \<open>t\<close>: the timers due by then have run, the state updater
  runs, and \<open>setTimeout(triggerSave, 0)\<close> calls \<open>triggerSave\<close> once the new state is in
  place. An operation with two updaters, such as \<open>removeFromCollection\<close>, calls it twice in
  a row, which leaves the same single timer as one call.
\<close>

definition mutate :: "nat \<Rightarrow> (app_state \<Rightarrow> app_state) \<Rightarrow> page \<Rightarrow> page" where
  "mutate t f p = (let p1 = advance t p in triggerSave (p1\<lparr> app := f (app p1) \<rparr>))"

definition run :: "(nat \<times> (app_state \<Rightarrow> app_state)) list \<Rightarrow> page \<Rightarrow> page" where
  "run events p = foldl (\<lambda>q (t, f). mutate t f q) p events"

text \<open>
  Each mutation comes less than 1500 ms after the one before it, and none before time
  \<open>t0\<close>.
\<close>

fun within_quiet :: "nat \<Rightarrow> nat list \<Rightarrow> bool" where
  "within_quiet t0 [] = True"
| "within_quiet t0 (t # ts) = (t0 \<le> t \<and> t < t0 + 1500 \<and> within_quiet t ts)"

text \<open>
  One save is pending: the page is configured, the last mutation was at time \<open>tp\<close>, and the
  only timer is the one \<open>saveTimeout.current\<close> holds, due 1500 ms later.
\<close>

definition pending :: "page \<Rightarrow> nat \<Rightarrow> bool" where
  "pending p tp \<longleftrightarrow>
     isConfigured p \<and> clock p = tp \<and> (\<exists>i. timers p = [(i, tp + 1500)] \<and> saveTimeout p = Some i)"

section \<open>Example data\<close>

text \<open>Three cards, a second printing of one of them, and decks built from them.\<close>

definition sol_ring :: card where
  "sol_ring =
     \<lparr> card_id = Some (js ''c1''), card_name = Some (js ''Sol Ring''),
       set_name = js ''Commander 2021'', set_code = js ''c21'', collector_number = js ''263'',
       color_identity = [], prices = None, qty = 2, addedAt = Some 1000 \<rparr>"

definition meren :: card where
  "meren =
     \<lparr> card_id = Some (js ''c2''), card_name = Some (js ''Meren of Clan Nel Toth''),
       set_name = js ''Commander 2015'', set_code = js ''c15'', collector_number = js ''49'',
       color_identity = [js ''B'', js ''G''], prices = None, qty = 1, addedAt = Some 2000 \<rparr>"

definition lightning_bolt :: card where
  "lightning_bolt =
     \<lparr> card_id = Some (js ''c3''), card_name = Some (js ''Lightning Bolt''),
       set_name = js ''Magic 2011'', set_code = js ''m11'', collector_number = js ''149'',
       color_identity = [js ''R''], prices = None, qty = 4, addedAt = Some 3000 \<rparr>"

definition meren_reprint :: card where
  "meren_reprint =
     \<lparr> card_id = Some (js ''c4''), card_name = Some (js ''Meren of Clan Nel Toth''),
       set_name = js ''Commander Anthology'', set_code = js ''cma'', collector_number = js ''183'',
       color_identity = [js ''B'', js ''G''], prices = None, qty = 1, addedAt = Some 4000 \<rparr>"

definition meren_deck :: deck where
  "meren_deck =
     \<lparr> deck_id = Some (js ''1700000000000''), deck_name = Some (js ''Meren''),
       format = js ''Commander'', commander = js ''c2'',
       cards = [\<lparr> collectionId = Some (js ''c2''), entry_qty = 1 \<rparr>,
                \<lparr> collectionId = Some (js ''c3''), entry_qty = 1 \<rparr>] \<rparr>"

definition reprint_deck :: deck where
  "reprint_deck = meren_deck\<lparr> commander := js ''c4'' \<rparr>"

definition example_state :: app_state where
  "example_state =
     \<lparr> collection = [sol_ring, meren, lightning_bolt], decks = [meren_deck],
       syncStatus = Idle, syncMsg = [] \<rparr>"

text \<open>
  Sheet rows: a collection row whose trailing payload cell the Sheets API left out, the
  same row with quantity \<open>0\<close>, a collection row and a deck row whose JSON cell is cut off,
  and a deck row without a card list.
\<close>

definition island_row :: row where
  "island_row =
     [Some (js ''c9''), Some (js ''Island''), Some (js ''Magic 2011''), Some (js ''m11''),
      Some (js ''234''), Some (js ''3'')]"

definition island_row_zero :: row where
  "island_row_zero =
     [Some (js ''c9''), Some (js ''Island''), Some (js ''Magic 2011''), Some (js ''m11''),
      Some (js ''234''), Some (js ''0'')]"

definition island_row_cut :: row where
  "island_row_cut = island_row @ [Some (js ''{}''), Some (js ''{oops'')]"

definition deck_row_no_cards :: row where
  "deck_row_no_cards =
     [Some (js ''1700000000000''), Some (js ''Meren''), Some (js ''Commander''),
      Some (js ''Meren of Clan Nel Toth'')]"

definition deck_row_cut :: row where
  "deck_row_cut = deck_row_no_cards @ [Some (js ''[{oops'')]"





text \<open>A page that has just loaded the example state, configured or not\<close>

definition example_page :: "bool \<Rightarrow> page" where
  "example_page configured =
     \<lparr> isConfigured = configured, app = example_state, clock = 0, nextTimerId = 1,
       timers = [], saveTimeout = None, saves = [] \<rparr>"

text \<open>
  Three mutations, 1000 ms and 1400 ms apart: a card is removed, a card is added, and the
  same card is added again.
\<close>

definition add_bolt :: "int \<Rightarrow> app_state \<Rightarrow> app_state" where
  "add_bolt now st = st\<lparr> collection := addToCollection lightning_bolt now (collection st) \<rparr>"

definition burst :: "(nat \<times> (app_state \<Rightarrow> app_state)) list" where
  "burst = [(0, removeFromCollection (Some (js ''c3''))), (1000, add_bolt 1000), (2400, add_bolt 2400)]"

text \<open>
  A collection row as an edited sheet can hold it, with quantity \<open>-1\<close>, and the card it
  decodes to.
\<close>

definition island_row_minus :: row where
  \<open>island_row_minus =
     [Some (js ''c9''), Some (js ''Island''), Some (js ''Magic 2011''), Some (js ''m11''),
      Some (js ''234''), Some (js ''-1''), Some (js ''{}''),
      Some (js ''{"id":"c9","name":"Island"}'')]\<close>

definition island :: card where
  "island =
     \<lparr> card_id = Some (js ''c9''), card_name = Some (js ''Island''), set_name = [], set_code = [],
       collector_number = [], color_identity = [], prices = None, qty = - 1, addedAt = None \<rparr>"

text \<open>
  A blue card that no deck holds, and the deck of the example once its commander card has
  been removed from the collection.
\<close>

definition counterspell :: card where
  "counterspell =
     \<lparr> card_id = Some (js ''c5''), card_name = Some (js ''Counterspell''),
       set_name = js ''Seventh Edition'', set_code = js ''7ed'', collector_number = js ''67'',
       color_identity = [js ''U''], prices = None, qty = 1, addedAt = Some 5000 \<rparr>"

definition dangling_deck :: deck where
  "dangling_deck = meren_deck\<lparr> cards := [\<lparr> collectionId = Some (js ''c3''), entry_qty = 1 \<rparr>] \<rparr>"

section \<open>Type permutation: the code computes the words before the separator\<close>

lemma words_of_Nil: "words_of [] = []"
  by (simp add: words_of.simps)

lemma words_of_space: "is_space c \<Longrightarrow> words_of (c # cs) = words_of cs"
  by (simp add: words_of.simps [of "c # cs"] words_of.simps [of cs])

lemma words_of_word:
  "\<not> is_space c \<Longrightarrow>
   words_of (c # cs) = (c # takeWhile (\<lambda>x. \<not> is_space x) cs) # words_of (dropWhile (\<lambda>x. \<not> is_space x) cs)"
  by (simp add: words_of.simps [of "c # cs"])

lemma words_of_step:
  assumes "\<not> is_space c"
  shows "words_of (c # cs) =
    (if cs = [] \<or> is_space (hd cs) then [c] # words_of cs
     else (case words_of cs of [] \<Rightarrow> [[c]] | w # ws \<Rightarrow> (c # w) # ws))"
proof (cases cs)
  case Nil
  with assms show ?thesis by (simp add: words_of_word)
next
  case (Cons d ds)
  show ?thesis
  proof (cases "is_space d")
    case True
    with assms Cons show ?thesis by (simp add: words_of_word)
  next
    case False
    with assms Cons show ?thesis by (simp add: words_of_word)
  qed
qed

lemma words_of_dropWhile: "words_of (dropWhile is_space s) = words_of s"
  by (induction s) (simp_all add: words_of_space)

lemma words_of_snoc_space: "is_space c \<Longrightarrow> words_of (s @ [c]) = words_of s"
proof (induction s)
  case Nil
  then show ?case by (simp add: words_of_space)
next
  case (Cons a s)
  show ?case
  proof (cases "is_space a")
    case True
    with Cons show ?thesis by (simp add: words_of_space)
  next
    case False
    have "words_of ((a # s) @ [c]) = words_of (a # (s @ [c]))" by simp
    also have "\<dots> = (if s @ [c] = [] \<or> is_space (hd (s @ [c])) then [a] # words_of (s @ [c])
       else (case words_of (s @ [c]) of [] \<Rightarrow> [[a]] | w # ws \<Rightarrow> (a # w) # ws))"
      by (rule words_of_step [OF False])
    also have "\<dots> = (if s = [] \<or> is_space (hd s) then [a] # words_of s
       else (case words_of s of [] \<Rightarrow> [[a]] | w # ws \<Rightarrow> (a # w) # ws))"
      using Cons.IH [OF Cons.prems] Cons.prems by (cases s) (simp_all add: words_of_Nil)
    also have "\<dots> = words_of (a # s)"
      by (rule words_of_step [OF False, symmetric])
    finally show ?thesis .
  qed
qed

lemma words_of_strip_end: "words_of (rev (dropWhile is_space r)) = words_of (rev r)"
  by (induction r) (simp_all add: words_of_snoc_space)

lemma words_of_trim: "words_of (trim s) = words_of s"
  by (simp add: trim_def words_of_strip_end words_of_dropWhile)

lemma split_ws_nonempty: "split_ws s \<noteq> []"
  by (induction s rule: split_ws.induct) (auto split: list.splits)

lemma split_ws_head:
  "split_ws s = w # ws \<Longrightarrow> w = [] \<longleftrightarrow> s = [] \<or> is_space (hd s)"
  by (cases s) (auto split: if_splits list.splits)

lemma split_ws_words: "filter (\<lambda>w. w \<noteq> []) (split_ws s) = words_of s"
proof (induction s rule: split_ws.induct)
  case 1
  show ?case by (simp add: words_of_Nil)
next
  case (2 c cs)
  show ?case
  proof (cases "is_space c")
    case True
    with 2 show ?thesis by (simp add: words_of_space words_of_dropWhile)
  next
    case False
    obtain w ws where sp: "split_ws cs = w # ws"
      using split_ws_nonempty [of cs] by (cases "split_ws cs") auto
    have ih: "filter (\<lambda>w. w \<noteq> []) (w # ws) = words_of cs"
      using 2(2) [OF False] sp by simp
    have hd: "w = [] \<longleftrightarrow> cs = [] \<or> is_space (hd cs)"
      by (rule split_ws_head [OF sp])
    have "filter (\<lambda>w. w \<noteq> []) (split_ws (c # cs)) = (c # w) # filter (\<lambda>w. w \<noteq> []) ws"
      using False sp by simp
    also have "\<dots> = words_of (c # cs)"
    proof (cases "w = []")
      case True
      with ih hd show ?thesis by (simp add: words_of_step [OF False])
    next
      case nonempty: False
      with ih have "words_of cs = w # filter (\<lambda>w. w \<noteq> []) ws" by simp
      with nonempty hd show ?thesis by (simp add: words_of_step [OF False])
    qed
    finally show ?thesis .
  qed
qed


lemma split_unit_hd: "(case split_unit sep s of [] \<Rightarrow> [] | p # _ \<Rightarrow> p) = takeWhile (\<lambda>c. c \<noteq> sep) s"
  by (induction s) (auto split: list.splits)

lemma join_eq_Nil: "\<forall>w \<in> set ws. w \<noteq> [] \<Longrightarrow> join sep ws = [] \<longleftrightarrow> ws = []"
  by (induction sep ws rule: join.induct) auto

lemma words_of_nonempty: "w \<in> set (words_of s) \<Longrightarrow> w \<noteq> []"
  using split_ws_words [of s, symmetric] by auto

text \<open>
  C4 (as amended). For every type line, \<open>getTypePermutation\<close> returns the words of the
  part before the first em dash that are not supertypes, in their order, joined by one
  space, and \<open>Other\<close> when no word is left. The type line
  \<open>Legendary Artifact Creature \<emdash> Equipment\<close> gives \<open>Artifact Creature\<close>, and
  \<open>Basic Land \<emdash> Island\<close> gives \<open>Land\<close>: only \<open>Basic\<close> is a supertype.
\<close>

theorem getTypePermutation_words:
  "getTypePermutation (Some t) = type_permutation_spec t \<and>
   getTypePermutation (Some (js ''Legendary Artifact Creature '' @ [EM_DASH] @ js '' Equipment''))
     = js ''Artifact Creature'' \<and>
   getTypePermutation (Some (js ''Basic Land '' @ [EM_DASH] @ js '' Island'')) = js ''Land''"
proof -
  let ?ws = "filter (\<lambda>w. w \<notin> set SUPERTYPES) (words_of (before_separator t))"
  have "\<forall>w \<in> set ?ws. w \<noteq> []"
    by (auto dest: words_of_nonempty)
  then have "join (js '' '') ?ws = [] \<longleftrightarrow> ?ws = []"
    by (rule join_eq_Nil)
  then have general: "getTypePermutation (Some t) = type_permutation_spec t"
    by (simp add: getTypePermutation_def type_permutation_spec_def before_separator_def
        split_unit_hd split_ws_words words_of_trim Let_def)
  have equipment:
    "getTypePermutation (Some (js ''Legendary Artifact Creature '' @ [EM_DASH] @ js '' Equipment''))
       = js ''Artifact Creature''"
    by (simp add: getTypePermutation_def js_def EM_DASH_def trim_def is_space_def SUPERTYPES_def)
  have island:
    "getTypePermutation (Some (js ''Basic Land '' @ [EM_DASH] @ js '' Island'')) = js ''Land''"
    by (simp add: getTypePermutation_def js_def EM_DASH_def trim_def is_space_def SUPERTYPES_def)
  from general equipment island show ?thesis by simp
qed

text \<open>
  The claim as stated gives \<open>Other\<close> for \<open>Basic Land \<emdash> Island\<close>; the code returns
  \<open>Land\<close>.
\<close>

theorem getTypePermutation_basic_land_counterexample:
  "getTypePermutation (Some (js ''Basic Land '' @ [EM_DASH] @ js '' Island'')) \<noteq> js ''Other''"
  by (simp add: getTypePermutation_def js_def EM_DASH_def trim_def is_space_def SUPERTYPES_def)

section \<open>Adding and removing cards\<close>

lemmas example_defs = sol_ring_def meren_def lightning_bolt_def meren_reprint_def meren_deck_def
  reprint_deck_def example_state_def

lemma js_Cons_nonempty: "js (c # cs) \<noteq> []"
  by (simp add: js_def)

lemma find_None_card: "find P xs = None \<longleftrightarrow> (\<forall>x \<in> set xs. \<not> P x)"
  by (induction xs) auto

lemma double_round_small: "\<bar>x\<bar> \<le> 2 ^ 53 \<Longrightarrow> double_round x = x"
  by (simp add: double_round_def Let_def nat_le_iff)

lemma js_add_small: "\<bar>a + b\<bar> \<le> 2 ^ 53 \<Longrightarrow> js_add a b = a + b"
  by (simp add: js_add_def double_round_small)

lemma js_add_examples: "js_add 1 1 = 2" "js_add 2 1 = 3" "js_add (- 1) 1 = 0"
  by (simp_all add: js_add_small)

text \<open>At \<open>2^53\<close> the sum is rounded, and adding 1 changes nothing.\<close>

lemma bit_length_limit: "bit_length 9007199254740993 = 54" "bit_length 9007199254740995 = 54"
  by (simp_all add: bit_length.simps)

lemma double_round_limit:
  "double_round (2 ^ 53 + 1) = 2 ^ 53" "double_round (2 ^ 53 + 3) = 2 ^ 53 + 4"
  "double_round (- (2 ^ 53) - 1) = - (2 ^ 53)"
  by (simp_all add: double_round_def Let_def bit_length_limit)

lemma js_add_at_limit: "js_add (2 ^ 53) 1 = 2 ^ 53"
  using double_round_limit(1) by (simp add: js_add_def)

lemma addToCollection_fresh:
  assumes "\<forall>c \<in> set prev. card_id c \<noteq> card_id newCard"
  shows "addToCollection newCard now prev = prev @ [newCard\<lparr> qty := 1, addedAt := Some now \<rparr>]"
proof -
  have "find (\<lambda>c. card_id c = card_id newCard) prev = None"
    using assms by (simp add: find_None_card)
  then show ?thesis by (simp add: addToCollection_def)
qed

lemma addToCollection_present:
  assumes "find (\<lambda>c. card_id c = card_id newCard) prev \<noteq> None"
  shows "addToCollection newCard now prev =
    map (\<lambda>c. if card_id c = card_id newCard then c\<lparr> qty := js_add (num_or (qty c) 1) 1 \<rparr> else c) prev"
  using assms by (simp add: addToCollection_def)

lemma addToCollection_last:
  assumes other: "\<forall>c \<in> set prev. card_id c \<noteq> k"
    and e: "card_id e = k" and n: "card_id newCard = k" and q: "0 < qty e" "qty e < 2 ^ 53"
  shows "addToCollection newCard now (prev @ [e]) = prev @ [e\<lparr> qty := qty e + 1 \<rparr>]"
proof -
  have "find (\<lambda>c. card_id c = card_id newCard) (prev @ [e]) \<noteq> None"
    using e n by (simp add: find_None_card)
  then have "addToCollection newCard now (prev @ [e]) =
    map (\<lambda>c. if card_id c = card_id newCard then c\<lparr> qty := js_add (num_or (qty c) 1) 1 \<rparr> else c) (prev @ [e])"
    by (rule addToCollection_present)
  also have "\<dots> = prev @ [e\<lparr> qty := qty e + 1 \<rparr>]"
    using other e n q by (simp add: num_or_def map_idI js_add_small)
  finally show ?thesis .
qed

lemma add_many_last:
  assumes other: "\<forall>c \<in> set prev. card_id c \<noteq> k"
    and adds: "\<forall>(c, t) \<in> set adds. card_id c = k"
    and e: "card_id e = k" and q: "0 < qty e" and bound: "qty e + int (length adds) \<le> 2 ^ 53"
  shows "foldl (\<lambda>s (c, t). addToCollection c t s) (prev @ [e]) adds
       = prev @ [e\<lparr> qty := qty e + int (length adds) \<rparr>]"
  using adds e q bound
proof (induction adds arbitrary: e)
  case Nil
  then show ?case by simp
next
  case (Cons a adds)
  obtain c t where a: "a = (c, t)" by (cases a)
  have step: "addToCollection c t (prev @ [e]) = prev @ [e\<lparr> qty := qty e + 1 \<rparr>]"
    using Cons.prems a by (intro addToCollection_last [OF other]) auto
  have "foldl (\<lambda>s (c, t). addToCollection c t s) (prev @ [e\<lparr> qty := qty e + 1 \<rparr>]) adds
      = prev @ [e\<lparr> qty := qty e + 1 \<rparr>\<lparr> qty := qty (e\<lparr> qty := qty e + 1 \<rparr>) + int (length adds) \<rparr>]"
    using Cons.prems by (intro Cons.IH) auto
  then show ?case using a step by (simp add: add.assoc)
qed

lemma add_many_fresh:
  assumes other: "\<forall>c \<in> set prev. card_id c \<noteq> k"
    and adds: "\<forall>(c, t) \<in> set ((c1, t1) # adds). card_id c = k"
    and bound: "1 + int (length adds) \<le> 2 ^ 53"
  shows "foldl (\<lambda>s (c, t). addToCollection c t s) prev ((c1, t1) # adds)
       = prev @ [c1\<lparr> qty := 1 + int (length adds), addedAt := Some t1 \<rparr>]"
proof -
  have k: "card_id c1 = k" using adds by simp
  have first: "addToCollection c1 t1 prev = prev @ [c1\<lparr> qty := 1, addedAt := Some t1 \<rparr>]"
    using other k by (intro addToCollection_fresh) simp
  have "foldl (\<lambda>s (c, t). addToCollection c t s) (prev @ [c1\<lparr> qty := 1, addedAt := Some t1 \<rparr>]) adds
      = prev @ [c1\<lparr> qty := 1, addedAt := Some t1 \<rparr>
                 \<lparr> qty := qty (c1\<lparr> qty := 1, addedAt := Some t1 \<rparr>) + int (length adds) \<rparr>]"
    using adds k bound by (intro add_many_last [OF other]) auto
  then show ?thesis using first by simp
qed

text \<open>
  C1 (as amended). From a collection without the identifier \<open>k\<close>, any non-empty sequence of
  at most \<open>2^53\<close> \<open>addCard\<close> calls with cards of identifier \<open>k\<close> leaves exactly one entry for
  \<open>k\<close>, whose quantity is the number of calls, and leaves the other entries as they were.
  On a collection that already has the identifier, \<open>addCard\<close> never creates an entry: the
  collection keeps its length and its identifiers, the entries of other identifiers do not
  change, and an entry of the identifier changes in its quantity only. That quantity grows
  by 1 when it is not 0 and is below \<open>2^53\<close> in magnitude; a quantity of 0 becomes 2.
\<close>

theorem addToCollection_counts:
  "((\<forall>c \<in> set prev. card_id c \<noteq> k) \<and> (\<forall>(c, t) \<in> set adds. card_id c = k) \<and> adds \<noteq> [] \<and>
    int (length adds) \<le> 2 ^ 53 \<longrightarrow>
      (let final = foldl (\<lambda>s (c, t). addToCollection c t s) prev adds
       in (\<exists>e. filter (\<lambda>c. card_id c = k) final = [e] \<and> qty e = int (length adds)) \<and>
          filter (\<lambda>c. card_id c \<noteq> k) final = prev)) \<and>
   (find (\<lambda>c. card_id c = card_id newCard) coll \<noteq> None \<longrightarrow>
      (let next = addToCollection newCard now coll
       in length next = length coll \<and>
          map card_id next = map card_id coll \<and>
          (\<forall>i < length coll.
             (card_id (coll ! i) \<noteq> card_id newCard \<longrightarrow> next ! i = coll ! i) \<and>
             (card_id (coll ! i) = card_id newCard \<longrightarrow>
                next ! i = (coll ! i)\<lparr> qty := qty (next ! i) \<rparr> \<and>
                (qty (coll ! i) \<noteq> 0 \<and> \<bar>qty (coll ! i)\<bar> < 2 ^ 53 \<longrightarrow>
                   qty (next ! i) = qty (coll ! i) + 1) \<and>
                (qty (coll ! i) = 0 \<longrightarrow> qty (next ! i) = 2)))))"
proof (intro conjI impI)
  assume "(\<forall>c \<in> set prev. card_id c \<noteq> k) \<and> (\<forall>(c, t) \<in> set adds. card_id c = k) \<and> adds \<noteq> [] \<and>
    int (length adds) \<le> 2 ^ 53"
  then have other: "\<forall>c \<in> set prev. card_id c \<noteq> k"
    and adds: "\<forall>(c, t) \<in> set adds. card_id c = k" and ne: "adds \<noteq> []"
    and bound: "int (length adds) \<le> 2 ^ 53"
    by simp_all
  obtain c1 t1 rest where a: "adds = (c1, t1) # rest"
    using ne by (cases adds) auto
  have k: "card_id c1 = k" using adds a by simp
  have final: "foldl (\<lambda>s (c, t). addToCollection c t s) prev adds
     = prev @ [c1\<lparr> qty := 1 + int (length rest), addedAt := Some t1 \<rparr>]"
    unfolding a using adds bound a by (intro add_many_fresh [OF other]) simp_all
  have f1: "filter (\<lambda>c. card_id c = k) prev = []"
    using other by (simp add: filter_empty_conv)
  have f2: "filter (\<lambda>c. card_id c \<noteq> k) prev = prev"
    using other by (simp add: filter_id_conv)
  show "(let final = foldl (\<lambda>s (c, t). addToCollection c t s) prev adds
    in (\<exists>e. filter (\<lambda>c. card_id c = k) final = [e] \<and> qty e = int (length adds)) \<and>
       filter (\<lambda>c. card_id c \<noteq> k) final = prev)"
    unfolding Let_def final using k f1 f2 by (simp add: a)
next
  assume present: "find (\<lambda>c. card_id c = card_id newCard) coll \<noteq> None"
  have grows: "q \<noteq> 0 \<Longrightarrow> \<bar>q\<bar> < 2 ^ 53 \<Longrightarrow> js_add (num_or q 1) 1 = q + 1" for q
    by (simp add: num_or_def js_add_small)
  have zero: "js_add (num_or 0 1) 1 = 2"
    by (simp add: num_or_def js_add_small)
  show "(let next = addToCollection newCard now coll
       in length next = length coll \<and>
          map card_id next = map card_id coll \<and>
          (\<forall>i < length coll.
             (card_id (coll ! i) \<noteq> card_id newCard \<longrightarrow> next ! i = coll ! i) \<and>
             (card_id (coll ! i) = card_id newCard \<longrightarrow>
                next ! i = (coll ! i)\<lparr> qty := qty (next ! i) \<rparr> \<and>
                (qty (coll ! i) \<noteq> 0 \<and> \<bar>qty (coll ! i)\<bar> < 2 ^ 53 \<longrightarrow>
                   qty (next ! i) = qty (coll ! i) + 1) \<and>
                (qty (coll ! i) = 0 \<longrightarrow> qty (next ! i) = 2))))"
    unfolding Let_def addToCollection_present [OF present]
    by (auto simp: grows zero cong: map_cong)
qed

theorem addToCollection_counts_witness:
  "foldl (\<lambda>s (c, t). addToCollection c t s) [sol_ring]
     [(lightning_bolt, 5000), (lightning_bolt, 6000), (lightning_bolt, 7000)]
     = [sol_ring, lightning_bolt\<lparr> qty := 3, addedAt := Some 5000 \<rparr>] \<and>
   (\<exists>e. filter (\<lambda>c. card_id c = Some (js ''c3''))
          (foldl (\<lambda>s (c, t). addToCollection c t s) [sol_ring]
             [(lightning_bolt, 5000), (lightning_bolt, 6000), (lightning_bolt, 7000)]) = [e] \<and>
        qty e = 3) \<and>
   addToCollection sol_ring 8000 [sol_ring, meren] = [sol_ring\<lparr> qty := 3 \<rparr>, meren]"
  using addToCollection_counts [of "[sol_ring]" "Some (js ''c3'')"
      "[(lightning_bolt, 5000), (lightning_bolt, 6000), (lightning_bolt, 7000)]"
      sol_ring "[sol_ring, meren]" 8000]
  by (simp add: addToCollection_def num_or_def js_add_examples example_defs js_def)

text \<open>
  The claim as stated lets every add on a present identifier grow the quantity by 1. A
  sheet row with quantity \<open>-1\<close> decodes to a card of quantity \<open>-1\<close>; one add makes the
  quantity 0, and the next add makes it 2.
\<close>

theorem addToCollection_zero_counterexample:
  "rowToCard JSON_parse island_row_minus = Some island \<and>
   addToCollection island 1 [island] = [island\<lparr> qty := 0 \<rparr>] \<and>
   addToCollection island 2 [island\<lparr> qty := 0 \<rparr>] = [island\<lparr> qty := 2 \<rparr>]"
proof -
  have payload: \<open>JSON_parse (js ''{"id":"c9","name":"Island"}'')
      = Some (JObj [(js ''id'', JStr (js ''c9'')), (js ''name'', JStr (js ''Island''))])\<close>
    by (simp add: JSON_parse_def js_def json_ws_def)
  have minus: "parseInt (Some (js ''-1'')) = Some (- 1)"
    by (simp add: parseInt_def js_def is_space_def is_digit_def digit_val_def)
  have decoded: "rowToCard JSON_parse island_row_minus = Some island"
    by (simp add: rowToCard_def island_row_minus_def cell_def or_str_def payload minus
        js_Cons_nonempty
        parseInt_or_1_def num_or_def card_of_json_def str_prop_def int_prop_def get_prop_def
        island_def js_def [of "''id''"] js_def [of "''name''"] js_def [of "''set_name''"]
        js_def [of "''set''"] js_def [of "''collector_number''"] js_def [of "''color_identity''"]
        js_def [of "''prices''"] js_def [of "''qty''"] js_def [of "''addedAt''"])
  have adds: "addToCollection island 1 [island] = [island\<lparr> qty := 0 \<rparr>]"
    "addToCollection island 2 [island\<lparr> qty := 0 \<rparr>] = [island\<lparr> qty := 2 \<rparr>]"
    by (simp_all add: addToCollection_def num_or_def js_add_examples island_def)
  from decoded adds show ?thesis by simp
qed

text \<open>
  C2. After \<open>removeCard(id)\<close> no collection entry and no deck entry refers to \<open>id\<close>; the
  collection is the old one without the entries of \<open>id\<close>, and every deck keeps its
  identifier, name, format and commander and its other entries, in their order.
\<close>

theorem removeFromCollection_cascade:
  "(let st' = removeFromCollection cardId st
    in (\<forall>c \<in> set (collection st'). card_id c \<noteq> cardId) \<and>
       (\<forall>d \<in> set (decks st'). \<forall>e \<in> set (cards d). collectionId e \<noteq> cardId) \<and>
       collection st' = filter (\<lambda>c. card_id c \<noteq> cardId) (collection st) \<and>
       length (decks st') = length (decks st) \<and>
       (\<forall>i < length (decks st).
          deck_id (decks st' ! i) = deck_id (decks st ! i) \<and>
          deck_name (decks st' ! i) = deck_name (decks st ! i) \<and>
          format (decks st' ! i) = format (decks st ! i) \<and>
          commander (decks st' ! i) = commander (decks st ! i) \<and>
          cards (decks st' ! i) = filter (\<lambda>e. collectionId e \<noteq> cardId) (cards (decks st ! i))) \<and>
       syncStatus st' = syncStatus st \<and> syncMsg st' = syncMsg st)"
  by (auto simp: removeFromCollection_def Let_def)

theorem removeFromCollection_cascade_witness:
  "collection (removeFromCollection (Some (js ''c3'')) example_state) = [sol_ring, meren] \<and>
   decks (removeFromCollection (Some (js ''c3'')) example_state)
     = [meren_deck\<lparr> cards := [\<lparr> collectionId = Some (js ''c2''), entry_qty = 1 \<rparr>] \<rparr>]"
  using removeFromCollection_cascade [of "Some (js ''c3'')" example_state]
  by (simp add: removeFromCollection_def example_defs js_def)


section \<open>Deck color identity\<close>

lemma set_foldl_set_add: "set (foldl set_add s xs) = set s \<union> set xs"
  by (induction xs arbitrary: s) (auto simp: set_add_def)

lemma distinct_foldl_set_add: "distinct s \<Longrightarrow> distinct (foldl set_add s xs)"
  by (induction xs arbitrary: s) (auto simp: set_add_def)

lemma set_foldl_members:
  "set (foldl (\<lambda>s (c, q). foldl set_add s (color_identity c)) s0 cs)
     = set s0 \<union> (\<Union>(c, q) \<in> set cs. set (color_identity c))"
  by (induction cs arbitrary: s0) (auto simp: set_foldl_set_add)

lemma distinct_foldl_members:
  "distinct s0 \<Longrightarrow> distinct (foldl (\<lambda>s (c, q). foldl set_add s (color_identity c)) s0 cs)"
  by (induction cs arbitrary: s0) (auto simp: distinct_foldl_set_add)

lemma find_first_with_id:
  "find (\<lambda>c. card_id c = k) coll = Some c \<longleftrightarrow> is_first_with_id coll k c"
  by (auto simp: find_Some_iff is_first_with_id_def)

lemma commanderCard_Some:
  "commanderCard d coll = Some cc \<longleftrightarrow>
     commander d \<noteq> [] \<and> is_first_with_id coll (Some (commander d)) cc"
  by (simp add: commanderCard_def find_first_with_id)

lemma commanderCard_None:
  "commanderCard d coll = None \<longleftrightarrow>
     commander d = [] \<or> (\<forall>c \<in> set coll. card_id c \<noteq> Some (commander d))"
  by (auto simp: commanderCard_def find_None_card)

lemma set_map_filter: "set (List.map_filter f xs) = {y. \<exists>x \<in> set xs. f x = Some y}"
  by (induction xs) (auto simp: List.map_filter_def)

lemma deckCards_members:
  "fst ` set (deckCards d coll) = {c. is_member_card d coll c}"
proof -
  have truthy_id: "or_str (card_id c) [] \<noteq> [] \<longleftrightarrow> (\<exists>s. card_id c = Some s \<and> s \<noteq> [])" for c
    by (cases "card_id c") (simp_all add: or_str_def)
  have "c \<in> fst ` set (deckCards d coll) \<longleftrightarrow> is_member_card d coll c" for c
  proof
    assume "c \<in> fst ` set (deckCards d coll)"
    then obtain q e where e: "e \<in> set (cards d)"
      and f: "(case find (\<lambda>col. card_id col = collectionId e) coll of
                None \<Rightarrow> None
              | Some col \<Rightarrow> if or_str (card_id col) [] \<noteq> [] then Some (col, entry_qty e) else None)
              = Some (c, q)"
      by (auto simp: deckCards_def set_map_filter)
    from f have "find (\<lambda>col. card_id col = collectionId e) coll = Some c"
      and "or_str (card_id c) [] \<noteq> []"
      by (auto split: option.splits if_splits)
    with e show "is_member_card d coll c"
      by (auto simp: is_member_card_def find_first_with_id truthy_id)
  next
    assume "is_member_card d coll c"
    then obtain e where e: "e \<in> set (cards d)"
      and f: "find (\<lambda>col. card_id col = collectionId e) coll = Some c"
      and t: "or_str (card_id c) [] \<noteq> []"
      by (auto simp: is_member_card_def find_first_with_id truthy_id)
    then have "(c, entry_qty e) \<in> set (deckCards d coll)"
      by (auto simp: deckCards_def set_map_filter intro!: bexI [of _ e])
    then show "c \<in> fst ` set (deckCards d coll)"
      by force
  qed
  then show ?thesis by blast
qed

lemma deckCards_colors:
  "(\<Union>(c, q) \<in> set (deckCards d coll). set (color_identity c)) = member_colors d coll"
proof -
  have "(\<Union>(c, q) \<in> set (deckCards d coll). set (color_identity c))
      = (\<Union>c \<in> fst ` set (deckCards d coll). set (color_identity c))"
    by force
  also have "\<dots> = member_colors d coll"
    unfolding deckCards_members by (auto simp: member_colors_def)
  finally show ?thesis .
qed

lemma first_with_id_examples:
  "is_first_with_id [sol_ring, meren, lightning_bolt, counterspell] (Some (js ''c2'')) meren"
  by (auto simp: is_first_with_id_def example_defs js_def intro!: exI [of _ 1])

text \<open>
  C7 (as amended). For a Commander-format deck whose commander reference resolves to a
  card of the collection, the deck color identity is exactly the color identity of that
  card, whatever the member cards are. For every other deck, also for a Commander-format
  deck whose commander reference is empty or names no card of the collection, it is the
  union of the color identities of the member cards: the collection cards with a non-empty
  identifier that the entries of the deck refer to. The Commander deck of the example,
  with commander identity \<open>{B, G}\<close> and a member of identity \<open>{R}\<close>, has \<open>{B, G}\<close>; under
  Standard format it has \<open>{B, G, R}\<close>, without the color of a collection card that is not
  in the deck.
\<close>

theorem deckColorIdentity_rule:
  "(format d = js ''Commander'' \<and> commander d \<noteq> [] \<and>
    is_first_with_id coll (Some (commander d)) cc \<longrightarrow>
      set (deckColorIdentity d coll) = set (color_identity cc)) \<and>
   (format d \<noteq> js ''Commander'' \<or> commander d = [] \<or>
    (\<forall>c \<in> set coll. card_id c \<noteq> Some (commander d)) \<longrightarrow>
      set (deckColorIdentity d coll) = member_colors d coll) \<and>
   distinct (deckColorIdentity d coll)"
proof (intro conjI impI)
  assume "format d = js ''Commander'' \<and> commander d \<noteq> [] \<and>
    is_first_with_id coll (Some (commander d)) cc"
  then have "format d = js ''Commander''" "commanderCard d coll = Some cc"
    by (simp_all add: commanderCard_Some)
  then show "set (deckColorIdentity d coll) = set (color_identity cc)"
    by (simp add: deckColorIdentity_def set_foldl_set_add)
next
  assume "format d \<noteq> js ''Commander'' \<or> commander d = [] \<or>
    (\<forall>c \<in> set coll. card_id c \<noteq> Some (commander d))"
  then have "(if format d = js ''Commander'' then commanderCard d coll else None) = None"
    by (auto simp: commanderCard_None)
  then show "set (deckColorIdentity d coll) = member_colors d coll"
    by (simp add: deckColorIdentity_def set_foldl_members deckCards_colors)
next
  show "distinct (deckColorIdentity d coll)"
    by (auto simp: deckColorIdentity_def distinct_foldl_set_add distinct_foldl_members
        split: option.splits)
qed

theorem deckColorIdentity_rule_witness:
  "deckColorIdentity meren_deck [sol_ring, meren, lightning_bolt, counterspell] = [js ''B'', js ''G''] \<and>
   set (deckColorIdentity meren_deck [sol_ring, meren, lightning_bolt, counterspell])
     = set (color_identity meren) \<and>
   deckColorIdentity (meren_deck\<lparr> format := js ''Standard'' \<rparr>)
     [sol_ring, meren, lightning_bolt, counterspell] = [js ''B'', js ''G'', js ''R''] \<and>
   member_colors (meren_deck\<lparr> format := js ''Standard'' \<rparr>)
     [sol_ring, meren, lightning_bolt, counterspell] = {js ''B'', js ''G'', js ''R''}"
proof -
  let ?coll = "[sol_ring, meren, lightning_bolt, counterspell]"
  let ?std = "meren_deck\<lparr> format := js ''Standard'' \<rparr>"
  have c: "format meren_deck = js ''Commander'' \<and> commander meren_deck \<noteq> [] \<and>
      is_first_with_id ?coll (Some (commander meren_deck)) meren"
    using first_with_id_examples by (simp add: meren_deck_def js_def)
  have s: "format ?std \<noteq> js ''Commander''"
    by (simp add: js_def)
  have v1: "deckColorIdentity meren_deck ?coll = [js ''B'', js ''G'']"
    and v2: "deckColorIdentity ?std ?coll = [js ''B'', js ''G'', js ''R'']"
    by (simp_all add: deckColorIdentity_def commanderCard_def deckCards_def set_add_def
        List.map_filter_def or_str_def example_defs counterspell_def js_def)
  from deckColorIdentity_rule [of meren_deck ?coll meren] c
  have "set (deckColorIdentity meren_deck ?coll) = set (color_identity meren)"
    by blast
  moreover from deckColorIdentity_rule [of ?std ?coll meren] s
  have "set (deckColorIdentity ?std ?coll) = member_colors ?std ?coll"
    by blast
  ultimately show ?thesis using v1 v2 by auto
qed

text \<open>
  The claim as stated gives every Commander-format deck with a commander set the color
  identity of the commander. \<open>removeCard\<close> on the commander card leaves the reference in
  the deck; the reference then names no card, and the deck gets the union of its members:
  here \<open>{R}\<close>, where the commander had \<open>{B, G}\<close>.
\<close>

theorem deckColorIdentity_dangling_counterexample:
  "collection (removeFromCollection (Some (js ''c2'')) example_state) = [sol_ring, lightning_bolt] \<and>
   decks (removeFromCollection (Some (js ''c2'')) example_state) = [dangling_deck] \<and>
   format dangling_deck = js ''Commander'' \<and> commander dangling_deck = js ''c2'' \<and>
   deckColorIdentity dangling_deck [sol_ring, lightning_bolt] = [js ''R'']"
  by (simp add: removeFromCollection_def deckColorIdentity_def commanderCard_def deckCards_def
      set_add_def List.map_filter_def or_str_def dangling_deck_def example_defs js_def)

section \<open>The codec\<close>

subsection \<open>Decimal digits\<close>

lemma digits_small: "n < 10 \<Longrightarrow> digits n = [48 + n]"
  by (subst digits.simps) simp

lemma digits_large: "\<not> n < 10 \<Longrightarrow> digits n = digits (n div 10) @ [48 + n mod 10]"
  by (subst digits.simps) simp

lemma digits_nonempty: "digits n \<noteq> []"
  by (cases "n < 10") (simp_all add: digits_small digits_large)

lemma digits_all_digit: "c \<in> set (digits n) \<Longrightarrow> 48 \<le> c \<and> c \<le> 57"
proof (induction n rule: digits.induct)
  case (1 n)
  show ?case
  proof (cases "n < 10")
    case True
    with 1(2) show ?thesis by (simp add: digits_small)
  next
    case False
    with 1(2) have "c \<in> set (digits (n div 10)) \<or> c = 48 + n mod 10"
      by (auto simp: digits_large)
    with 1(1) [OF False] show ?thesis by auto
  qed
qed

lemma digits_value: "foldl (\<lambda>a c. a * 10 + digit_val c) 0 (digits n) = n"
proof (induction n rule: digits.induct)
  case (1 n)
  show ?case
  proof (cases "n < 10")
    case True
    then show ?thesis by (simp add: digits_small digit_val_def)
  next
    case False
    have "digit_val (48 + n mod 10) = n mod 10"
      by (simp add: digit_val_def)
    with 1 [OF False] False show ?thesis
      by (simp add: digits_large)
  qed
qed

lemma digits_leading_zero: "digits n = 48 # r \<Longrightarrow> r = []"
proof (induction n arbitrary: r rule: digits.induct)
  case (1 n)
  show ?case
  proof (cases "n < 10")
    case True
    with 1(2) show ?thesis by (simp add: digits_small)
  next
    case False
    obtain a r' where d: "digits (n div 10) = a # r'"
      using digits_nonempty [of "n div 10"] by (cases "digits (n div 10)") auto
    with 1(2) False have "a = 48" by (simp add: digits_large)
    with 1(1) [OF False] d have "digits (n div 10) = [48]" by simp
    then have "foldl (\<lambda>a c. a * 10 + digit_val c) 0 (digits (n div 10)) = 0"
      by (simp add: digit_val_def)
    then have "n div 10 = 0" by (simp add: digits_value)
    with False show ?thesis by simp
  qed
qed

lemma takeWhile_digits: "takeWhile (is_digit 10) (digits n) = digits n"
  by (rule takeWhile_eq_all_conv [THEN iffD2]) (auto simp: is_digit_def dest: digits_all_digit)

lemma parseInt_unsigned:
  assumes "\<not> is_space a" "a \<noteq> 45" "a \<noteq> 43"
    and "\<not> (a = 48 \<and> (case r of [] \<Rightarrow> False | b # _ \<Rightarrow> b = 120 \<or> b = 88))"
  shows "parseInt (Some (a # r)) =
    (let ds = takeWhile (is_digit 10) (a # r)
     in if ds = [] then None else Some (int (foldl (\<lambda>a c. a * 10 + digit_val c) 0 ds)))"
  using assms by (auto simp: parseInt_def Let_def split: list.splits)

lemma parseInt_minus:
  assumes "\<not> (a = 48 \<and> (case r of [] \<Rightarrow> False | b # _ \<Rightarrow> b = 120 \<or> b = 88))"
  shows "parseInt (Some (45 # a # r)) =
    (let ds = takeWhile (is_digit 10) (a # r)
     in if ds = [] then None else Some (- int (foldl (\<lambda>a c. a * 10 + digit_val c) 0 ds)))"
  using assms by (auto simp: parseInt_def Let_def is_space_def split: list.splits)

lemma digits_shape:
  obtains a r where "digits n = a # r" "\<not> is_space a" "a \<noteq> 45" "a \<noteq> 43"
    "\<not> (a = 48 \<and> (case r of [] \<Rightarrow> False | b # _ \<Rightarrow> b = 120 \<or> b = 88))"
proof -
  obtain a r where d: "digits n = a # r"
    using digits_nonempty [of n] by (cases "digits n") auto
  have a: "48 \<le> a \<and> a \<le> 57" using digits_all_digit [of a n] d by simp
  have "a = 48 \<Longrightarrow> r = []" using digits_leading_zero d by simp
  then have "\<not> (a = 48 \<and> (case r of [] \<Rightarrow> False | b # _ \<Rightarrow> b = 120 \<or> b = 88))"
    by auto
  moreover have "\<not> is_space a" "a \<noteq> 45" "a \<noteq> 43"
    using a by (auto simp: is_space_def)
  ultimately show thesis using d that by blast
qed

lemma parseInt_nat: "parseInt (Some (digits n)) = Some (int n)"
proof -
  obtain a r where d: "digits n = a # r" and s: "\<not> is_space a" "a \<noteq> 45" "a \<noteq> 43"
    and h: "\<not> (a = 48 \<and> (case r of [] \<Rightarrow> False | b # _ \<Rightarrow> b = 120 \<or> b = 88))"
    by (rule digits_shape)
  have "parseInt (Some (a # r)) =
    (let ds = takeWhile (is_digit 10) (a # r)
     in if ds = [] then None else Some (int (foldl (\<lambda>a c. a * 10 + digit_val c) 0 ds)))"
    using s h by (rule parseInt_unsigned)
  then have "parseInt (Some (digits n)) =
    (let ds = takeWhile (is_digit 10) (digits n)
     in if ds = [] then None else Some (int (foldl (\<lambda>a c. a * 10 + digit_val c) 0 ds)))"
    by (simp only: d)
  then show ?thesis
    by (simp add: takeWhile_digits digits_value digits_nonempty Let_def)
qed

lemma parseInt_neg: "parseInt (Some (45 # digits n)) = Some (- int n)"
proof -
  obtain a r where d: "digits n = a # r"
    and h: "\<not> (a = 48 \<and> (case r of [] \<Rightarrow> False | b # _ \<Rightarrow> b = 120 \<or> b = 88))"
    by (rule digits_shape)
  have "parseInt (Some (45 # a # r)) =
    (let ds = takeWhile (is_digit 10) (a # r)
     in if ds = [] then None else Some (- int (foldl (\<lambda>a c. a * 10 + digit_val c) 0 ds)))"
    using h by (rule parseInt_minus)
  then have "parseInt (Some (45 # digits n)) =
    (let ds = takeWhile (is_digit 10) (digits n)
     in if ds = [] then None else Some (- int (foldl (\<lambda>a c. a * 10 + digit_val c) 0 ds)))"
    by (simp only: d)
  then show ?thesis
    by (simp add: takeWhile_digits digits_value digits_nonempty Let_def)
qed

lemma parseInt_String_int: "parseInt (Some (String_int i)) = Some i"
  by (cases "i < 0") (simp_all add: String_int_def parseInt_nat parseInt_neg)

lemma parseInt_or_1_String: "q \<noteq> 0 \<Longrightarrow> parseInt_or_1 (Some (String_int (num_or q 1))) = q"
  by (simp add: parseInt_or_1_def parseInt_String_int num_or_def)


subsection \<open>The typed reading of JSON values\<close>

lemma strings_of_JStr: "strings_of (map JStr xs) = xs"
  by (induction xs) (simp_all add: strings_of_def List.map_filter_def)

lemma card_of_json_of_card: "card_of_json (json_of_card c) = c"
proof -
  have "card_of_json (json_of_card c) =
     \<lparr> card_id = card_id c, card_name = card_name c, set_name = set_name c,
       set_code = set_code c, collector_number = collector_number c,
       color_identity = color_identity c, prices = prices c, qty = qty c,
       addedAt = addedAt c \<rparr>"
    by (cases "card_id c"; cases "card_name c"; cases "prices c"; cases "addedAt c")
      (simp_all add: card_of_json_def json_of_card_def str_prop_def int_prop_def get_prop_def
        opt_member_def or_str_def strings_of_JStr js_def)
  then show ?thesis by simp
qed

lemma entry_of_json_of_entry: "entry_of_json (json_of_entry e) = e"
proof -
  have "entry_of_json (json_of_entry e) =
     \<lparr> collectionId = collectionId e, entry_qty = entry_qty e \<rparr>"
    by (cases "collectionId e")
      (simp_all add: entry_of_json_def json_of_entry_def str_prop_def int_prop_def get_prop_def
        opt_member_def js_def)
  then show ?thesis by simp
qed

lemma entries_of_json_of_entries: "entries_of_json (json_of_entries es) = es"
  by (simp add: entries_of_json_def json_of_entries_def entry_of_json_of_entry map_idI)


subsection \<open>Decoding rows\<close>

lemma cell_simps:
  "cell (a # r) 0 = a" "cell (a # r) (Suc n) = cell r n" "cell [] n = None"
  by (simp_all add: cell_def)

lemma cell_cardToRow:
  "cell (cardToRow stringify c) 5 = Some (String_int (num_or (qty c) 1))"
  "cell (cardToRow stringify c) 7 = Some (stringify (json_of_card c))"
  by (simp_all add: cardToRow_def cell_def)

lemma cell_deckToRow:
  "cell (deckToRow stringify d coll) 0 = deck_id d"
  "cell (deckToRow stringify d coll) 1 = deck_name d"
  "cell (deckToRow stringify d coll) 2 = Some (format d)"
  "cell (deckToRow stringify d coll) 4 = Some (stringify (json_of_entries (cards d)))"
  by (simp_all add: deckToRow_def cell_def Let_def or_str_def)

lemma rowToCard_None:
  "rowToCard parse r = None \<longleftrightarrow> parse (or_str (cell r 7) (js ''{}'')) = None"
  by (simp add: rowToCard_def split: option.splits)

lemma rowToDeck_None:
  "rowToDeck parse r coll = None \<longleftrightarrow> parse (or_str (cell r 4) (js ''[]'')) = None"
  by (simp add: rowToDeck_def Let_def split: option.splits)

lemma or_str_absent: "x = None \<or> x = Some [] \<Longrightarrow> or_str x d = d"
  by (auto simp: or_str_def)

lemma or_str_present: "x = Some s \<Longrightarrow> s \<noteq> [] \<Longrightarrow> or_str x d = s"
  by (simp add: or_str_def)

lemma parseInt_or_1_cases:
  "parseInt_or_1 x = (case parseInt x of None \<Rightarrow> 1 | Some n \<Rightarrow> if n = 0 then 1 else n)"
  by (cases "parseInt x") (simp_all add: parseInt_or_1_def num_or_def)


lemmas example_rows = island_row_def island_row_zero_def island_row_cut_def
  deck_row_no_cards_def deck_row_cut_def

subsection \<open>The reference JSON functions on the examples\<close>

lemma JSON_parse_empty:
  "JSON_parse (js ''{}'') = Some (JObj [])" "JSON_parse (js ''[]'') = Some (JArr [])"
  by (simp_all add: JSON_parse_def js_def json_ws_def)

lemma JSON_parse_cut:
  "JSON_parse (js ''{oops'') = None" "JSON_parse (js ''[{oops'') = None"
  by (simp_all add: JSON_parse_def js_def json_ws_def)

lemma JSON_meren:
  "JSON_parse (JSON_stringify (json_of_card meren)) = Some (json_of_card meren)"
  "JSON_stringify (json_of_card meren) \<noteq> []"
  by (simp_all add: example_defs js_def json_of_card_def opt_member_def quote_def escape_unit_def
      String_int_def digits.simps JSON_parse_def json_ws_def parse_number_def is_digit_def digit_val_def)

lemma JSON_meren_deck:
  "JSON_parse (JSON_stringify (json_of_entries (cards meren_deck))) = Some (json_of_entries (cards meren_deck))"
  "JSON_stringify (json_of_entries (cards meren_deck)) \<noteq> []"
  by (simp_all add: example_defs js_def json_of_entries_def json_of_entry_def opt_member_def quote_def
      escape_unit_def String_int_def digits.simps JSON_parse_def json_ws_def parse_number_def
      is_digit_def digit_val_def)

lemma JSON_reprint_deck:
  "JSON_parse (JSON_stringify (json_of_entries (cards reprint_deck))) = Some (json_of_entries (cards reprint_deck))"
  "JSON_stringify (json_of_entries (cards reprint_deck)) \<noteq> []"
  using JSON_meren_deck by (simp_all add: reprint_deck_def)

lemma parseInt_examples:
  "parseInt (Some (js ''3'')) = Some 3" "parseInt (Some (js ''0'')) = Some 0"
  by (simp_all add: parseInt_def js_def is_space_def is_digit_def digit_val_def)

text \<open>
  C10 (as amended). A collection row whose payload cell is absent or empty decodes to a
  card: the empty object with a quantity, which is the integer that \<open>parseInt\<close> reads from
  the sixth cell, and 1 when that cell is missing, has no leading integer or reads as 0.
  Decoding returns \<open>null\<close> exactly when a non-empty payload cell does not parse.
\<close>

theorem rowToCard_missing_payload:
  assumes empty_object: "parse (js ''{}'') = Some (JObj [])"
  shows "(cell r 7 = None \<or> cell r 7 = Some [] \<longrightarrow>
            rowToCard parse r =
              Some ((card_of_json (JObj []))\<lparr> qty :=
                (case parseInt (cell r 5) of None \<Rightarrow> 1 | Some n \<Rightarrow> if n = 0 then 1 else n) \<rparr>)) \<and>
         (rowToCard parse r = None \<longleftrightarrow> (\<exists>s. cell r 7 = Some s \<and> s \<noteq> [] \<and> parse s = None))"
proof (intro conjI impI)
  assume "cell r 7 = None \<or> cell r 7 = Some []"
  then have "or_str (cell r 7) (js ''{}'') = js ''{}''"
    by (rule or_str_absent)
  then show "rowToCard parse r =
      Some ((card_of_json (JObj []))\<lparr> qty :=
        (case parseInt (cell r 5) of None \<Rightarrow> 1 | Some n \<Rightarrow> if n = 0 then 1 else n) \<rparr>)"
    using empty_object by (simp add: rowToCard_def parseInt_or_1_cases)
next
  show "rowToCard parse r = None \<longleftrightarrow> (\<exists>s. cell r 7 = Some s \<and> s \<noteq> [] \<and> parse s = None)"
  proof (cases "cell r 7 = None \<or> cell r 7 = Some []")
    case True
    then have "or_str (cell r 7) (js ''{}'') = js ''{}''"
      by (rule or_str_absent)
    with True empty_object show ?thesis
      by (auto simp: rowToCard_None)
  next
    case False
    then obtain s where s: "cell r 7 = Some s" "s \<noteq> []" by auto
    then have "or_str (cell r 7) (js ''{}'') = s"
      by (rule or_str_present)
    with s show ?thesis by (simp add: rowToCard_None)
  qed
qed

theorem rowToCard_missing_payload_witness:
  "rowToCard JSON_parse island_row = Some ((card_of_json (JObj []))\<lparr> qty := 3 \<rparr>) \<and>
   rowToCard JSON_parse island_row_cut = None"
  using rowToCard_missing_payload [of JSON_parse island_row, OF JSON_parse_empty(1)]
    rowToCard_missing_payload [of JSON_parse island_row_cut, OF JSON_parse_empty(1)]
  by (simp add: example_rows cell_def parseInt_examples JSON_parse_cut js_Cons_nonempty)

text \<open>
  The claim as stated takes the quantity from the sixth cell whenever the cell parses; a
  cell \<open>0\<close> parses to 0, and the decoded quantity is 1.
\<close>

theorem rowToCard_zero_quantity_counterexample:
  "cell island_row_zero 7 = None \<and> parseInt (cell island_row_zero 5) = Some 0 \<and>
   map_option qty (rowToCard JSON_parse island_row_zero) = Some 1"
  by (simp add: example_rows cell_def parseInt_examples rowToCard_def parseInt_or_1_def num_or_def
      or_str_def JSON_parse_empty)

text \<open>
  C5 (as amended). A deck row whose cards cell is absent or empty decodes to a deck with
  an empty card list. A row whose non-empty cards cell does not parse is dropped: decoding
  returns \<open>null\<close>, and it returns \<open>null\<close> in no other case.
\<close>

theorem rowToDeck_bad_cards:
  assumes empty_array: "parse (js ''[]'') = Some (JArr [])"
  shows "(cell r 4 = None \<or> cell r 4 = Some [] \<longrightarrow>
            (\<exists>d. rowToDeck parse r coll = Some d \<and> cards d = [])) \<and>
         (rowToDeck parse r coll = None \<longleftrightarrow> (\<exists>s. cell r 4 = Some s \<and> s \<noteq> [] \<and> parse s = None))"
proof (intro conjI impI)
  assume "cell r 4 = None \<or> cell r 4 = Some []"
  then have "or_str (cell r 4) (js ''[]'') = js ''[]''"
    by (rule or_str_absent)
  then show "\<exists>d. rowToDeck parse r coll = Some d \<and> cards d = []"
    using empty_array by (simp add: rowToDeck_def Let_def entries_of_json_def)
next
  show "rowToDeck parse r coll = None \<longleftrightarrow> (\<exists>s. cell r 4 = Some s \<and> s \<noteq> [] \<and> parse s = None)"
  proof (cases "cell r 4 = None \<or> cell r 4 = Some []")
    case True
    then have "or_str (cell r 4) (js ''[]'') = js ''[]''"
      by (rule or_str_absent)
    with True empty_array show ?thesis
      by (auto simp: rowToDeck_None)
  next
    case False
    then obtain s where s: "cell r 4 = Some s" "s \<noteq> []" by auto
    then have "or_str (cell r 4) (js ''[]'') = s"
      by (rule or_str_present)
    with s show ?thesis by (simp add: rowToDeck_None)
  qed
qed


theorem rowToDeck_bad_cards_witness:
  "(\<exists>d. rowToDeck JSON_parse deck_row_no_cards [meren] = Some d \<and> cards d = []) \<and>
   rowToDeck JSON_parse deck_row_cut [meren] = None"
  using rowToDeck_bad_cards [of JSON_parse deck_row_no_cards "[meren]", OF JSON_parse_empty(2)]
    rowToDeck_bad_cards [of JSON_parse deck_row_cut "[meren]", OF JSON_parse_empty(2)]
  by (simp add: example_rows cell_def JSON_parse_cut js_Cons_nonempty)

text \<open>
  The claim as stated keeps a row whose cards cell does not parse, with an empty card
  list; the code drops the row.
\<close>

theorem rowToDeck_cut_cards_counterexample:
  "cell deck_row_cut 4 = Some (js ''[{oops'') \<and> JSON_parse (js ''[{oops'') = None \<and>
   rowToDeck JSON_parse deck_row_cut [meren] = None"
  by (simp add: example_rows cell_def rowToDeck_None or_str_def JSON_parse_cut js_Cons_nonempty)

lemma rowToDeck_deckToRow:
  assumes p: "parse (stringify (json_of_entries (cards d))) = Some (json_of_entries (cards d))"
    and ne: "stringify (json_of_entries (cards d)) \<noteq> []"
  shows "rowToDeck parse (deckToRow stringify d coll) coll =
    Some \<lparr> deck_id = deck_id d, deck_name = deck_name d,
           format = (if format d = [] then js ''Standard'' else format d),
           commander =
             (let n = (if commander d \<noteq> []
                       then or_str (case find (\<lambda>c. card_id c = Some (commander d)) coll of
                                      None \<Rightarrow> None | Some c \<Rightarrow> card_name c) []
                       else [])
              in if n \<noteq> []
                 then or_str (case find (\<lambda>c. card_name c = Some n) coll of
                                None \<Rightarrow> None | Some c \<Rightarrow> card_id c) []
                 else []),
           cards = cards d \<rparr>"
proof -
  have c3: "cell (deckToRow stringify d coll) 3 =
      Some (if commander d \<noteq> []
            then or_str (case find (\<lambda>c. card_id c = Some (commander d)) coll of
                           None \<Rightarrow> None | Some c \<Rightarrow> card_name c) []
            else [])"
    by (simp add: deckToRow_def cell_def Let_def)
  have c4: "or_str (cell (deckToRow stringify d coll) 4) (js ''[]'') = stringify (json_of_entries (cards d))"
    using ne by (simp add: cell_deckToRow or_str_def)
  have c012: "cell (deckToRow stringify d coll) 0 = deck_id d"
    "cell (deckToRow stringify d coll) (Suc 0) = deck_name d"
    "cell (deckToRow stringify d coll) 2 = Some (format d)"
    by (simp_all add: deckToRow_def cell_def Let_def or_str_def)
  show ?thesis
    unfolding rowToDeck_def c4 p
    by (simp add: c3 c012 entries_of_json_of_entries Let_def or_str_def)
qed

lemma decoded_commander:
  "(let n = (if commander d \<noteq> []
             then or_str (case find (\<lambda>c. card_id c = Some (commander d)) coll of
                            None \<Rightarrow> None | Some c \<Rightarrow> card_name c) []
             else [])
    in if n \<noteq> []
       then or_str (case find (\<lambda>c. card_name c = Some n) coll of
                      None \<Rightarrow> None | Some c \<Rightarrow> card_id c) []
       else []) = commander d \<longleftrightarrow> commander_resolves d coll"
  by (auto simp: commander_resolves_def Let_def or_str_def split: option.splits if_splits)

text \<open>
  C3 (as amended). With a \<open>JSON.parse\<close> that reads back what \<open>JSON.stringify\<close> printed
  for the card and for the card list: decoding the encoded row of a card whose quantity is
  not 0 and is below \<open>2^53\<close> in magnitude (so that \<open>String\<close> prints its digits and
  \<open>parseInt\<close> reads them back exactly) gives the card back (identifier, name, quantity
  and the rest); decoding the
  encoded row of a deck against the same collection gives a deck with the same
  identifier, name and card list, the same format when the format is not empty, and the
  same commander exactly when the commander reference is empty or the first collection
  card with the commander's non-empty name is the commander card.
\<close>

theorem codec_round_trip:
  assumes "parse (stringify (json_of_card c)) = Some (json_of_card c)"
    and "stringify (json_of_card c) \<noteq> []"
    and "parse (stringify (json_of_entries (cards d))) = Some (json_of_entries (cards d))"
    and "stringify (json_of_entries (cards d)) \<noteq> []"
  shows "(qty c \<noteq> 0 \<and> \<bar>qty c\<bar> < 2 ^ 53 \<longrightarrow> rowToCard parse (cardToRow stringify c) = Some c) \<and>
         (\<exists>d'. rowToDeck parse (deckToRow stringify d coll) coll = Some d' \<and>
               deck_id d' = deck_id d \<and> deck_name d' = deck_name d \<and> cards d' = cards d \<and>
               (format d \<noteq> [] \<longrightarrow> format d' = format d) \<and>
               (commander d' = commander d \<longleftrightarrow> commander_resolves d coll))"
proof (intro conjI impI)
  assume "qty c \<noteq> 0 \<and> \<bar>qty c\<bar> < 2 ^ 53"
  then have q: "qty c \<noteq> 0" by simp
  have "or_str (cell (cardToRow stringify c) 7) (js ''{}'') = stringify (json_of_card c)"
    using assms(2) by (simp add: cell_cardToRow or_str_def)
  then have "rowToCard parse (cardToRow stringify c) =
      Some ((card_of_json (json_of_card c))\<lparr> qty := parseInt_or_1 (Some (String_int (num_or (qty c) 1))) \<rparr>)"
    using assms(1) by (simp add: rowToCard_def cell_cardToRow)
  then show "rowToCard parse (cardToRow stringify c) = Some c"
    using q by (simp add: card_of_json_of_card parseInt_or_1_String)
next
  show "\<exists>d'. rowToDeck parse (deckToRow stringify d coll) coll = Some d' \<and>
               deck_id d' = deck_id d \<and> deck_name d' = deck_name d \<and> cards d' = cards d \<and>
               (format d \<noteq> [] \<longrightarrow> format d' = format d) \<and>
               (commander d' = commander d \<longleftrightarrow> commander_resolves d coll)"
    using decoded_commander [of d coll]
    by (simp add: rowToDeck_deckToRow [of parse stringify d coll, OF assms(3,4)])
qed


theorem codec_round_trip_witness:
  "rowToCard JSON_parse (cardToRow JSON_stringify meren) = Some meren \<and>
   rowToDeck JSON_parse (deckToRow JSON_stringify meren_deck [sol_ring, meren, lightning_bolt])
     [sol_ring, meren, lightning_bolt] = Some meren_deck"
proof -
  have q: "qty meren \<noteq> 0 \<and> \<bar>qty meren\<bar> < 2 ^ 53" and f: "format meren_deck \<noteq> []"
    by (simp_all add: example_defs js_def)
  have r: "commander_resolves meren_deck [sol_ring, meren, lightning_bolt]"
    by (simp add: commander_resolves_def example_defs js_def)
  from codec_round_trip [OF JSON_meren JSON_meren_deck, of "[sol_ring, meren, lightning_bolt]"] q f r
  show ?thesis by auto
qed

text \<open>
  The claim as stated reproduces the commander reference of every deck. With two printings
  of the commander in the collection and the second one as commander, decoding resolves
  the name to the first printing.
\<close>

theorem codec_commander_counterexample:
  "rowToDeck JSON_parse
     (deckToRow JSON_stringify reprint_deck [sol_ring, meren, lightning_bolt, meren_reprint])
     [sol_ring, meren, lightning_bolt, meren_reprint] = Some (reprint_deck\<lparr> commander := js ''c2'' \<rparr>) \<and>
   commander reprint_deck = js ''c4'' \<and> js ''c4'' \<noteq> js ''c2''"
proof -
  have "rowToDeck JSON_parse
     (deckToRow JSON_stringify reprint_deck [sol_ring, meren, lightning_bolt, meren_reprint])
     [sol_ring, meren, lightning_bolt, meren_reprint] = Some (reprint_deck\<lparr> commander := js ''c2'' \<rparr>)"
    unfolding rowToDeck_deckToRow [of JSON_parse JSON_stringify reprint_deck, OF JSON_reprint_deck]
    by (simp add: example_defs or_str_def js_def)
  then show ?thesis by (simp add: example_defs js_def)
qed


section \<open>Loading\<close>

lemma island_rows_decoded:
  "rowToCard JSON_parse island_row = Some ((card_of_json (JObj []))\<lparr> qty := 3 \<rparr>)"
  "rowToCard JSON_parse island_row_cut = None"
  by (simp_all add: rowToCard_def example_rows cell_def or_str_def JSON_parse_empty JSON_parse_cut
      js_Cons_nonempty parseInt_or_1_def parseInt_examples num_or_def)

lemma deck_rows_decoded:
  "rowToDeck JSON_parse deck_row_no_cards [(card_of_json (JObj []))\<lparr> qty := 3 \<rparr>]
     = Some \<lparr> deck_id = Some (js ''1700000000000''), deck_name = Some (js ''Meren''),
              format = js ''Commander'', commander = [], cards = [] \<rparr>"
  "rowToDeck JSON_parse deck_row_cut coll = None"
  by (simp_all add: rowToDeck_def example_rows cell_def or_str_def JSON_parse_empty JSON_parse_cut
      js_Cons_nonempty entries_of_json_def card_of_json_def str_prop_def get_prop_def Let_def)

text \<open>
  C9. When a range read fails, \<open>load\<close> leaves the collection and the decks as they were
  and sets the status to \<open>error\<close> with the message of a failed read; when both reads
  succeed the collection and the decks are replaced by the decoded rows.
\<close>

theorem loadFromSheets_failure_keeps_state:
  "(let st' = loadFromSheets parse collRes deckRes collFirst st
    in ((\<exists>m. collRes = Inl m) \<or> (\<exists>m. deckRes = Inl m) \<longrightarrow>
          collection st' = collection st \<and> decks st' = decks st \<and> syncStatus st' = Error \<and>
          (\<exists>m. (collRes = Inl m \<or> deckRes = Inl m) \<and> syncMsg st' = js ''Load failed: '' @ m)) \<and>
       (\<forall>collRows deckRows. collRes = Inr collRows \<and> deckRes = Inr deckRows \<longrightarrow>
          collection st' = List.map_filter (rowToCard parse) collRows \<and>
          decks st' = List.map_filter (\<lambda>r. rowToDeck parse r (collection st')) deckRows \<and>
          syncStatus st' = Idle))"
  by (cases collRes; cases deckRes) (auto simp: loadFromSheets_def promise_all_def Let_def)



theorem loadFromSheets_failure_keeps_state_witness:
  "loadFromSheets JSON_parse (Inl (js ''Sheets read failed: 403'')) (Inr [deck_row_no_cards]) True
     example_state
     = example_state\<lparr> syncStatus := Error,
                       syncMsg := js ''Load failed: '' @ js ''Sheets read failed: 403'' \<rparr> \<and>
   collection (loadFromSheets JSON_parse (Inr [island_row, island_row_cut])
                 (Inr [deck_row_no_cards, deck_row_cut]) True example_state)
     = [(card_of_json (JObj []))\<lparr> qty := 3 \<rparr>] \<and>
   decks (loadFromSheets JSON_parse (Inr [island_row, island_row_cut])
            (Inr [deck_row_no_cards, deck_row_cut]) True example_state)
     = [\<lparr> deck_id = Some (js ''1700000000000''), deck_name = Some (js ''Meren''),
          format = js ''Commander'', commander = [], cards = [] \<rparr>]"
proof -
  have cs: "List.map_filter (rowToCard JSON_parse) [island_row, island_row_cut]
      = [(card_of_json (JObj []))\<lparr> qty := 3 \<rparr>]"
    by (simp add: List.map_filter_def island_rows_decoded)
  have ds: "List.map_filter (\<lambda>r. rowToDeck JSON_parse r [(card_of_json (JObj []))\<lparr> qty := 3 \<rparr>])
      [deck_row_no_cards, deck_row_cut]
      = [\<lparr> deck_id = Some (js ''1700000000000''), deck_name = Some (js ''Meren''),
          format = js ''Commander'', commander = [], cards = [] \<rparr>]"
    by (simp add: List.map_filter_def deck_rows_decoded)
  have failed: "loadFromSheets JSON_parse (Inl (js ''Sheets read failed: 403''))
      (Inr [deck_row_no_cards]) True example_state
     = example_state\<lparr> syncStatus := Error,
                       syncMsg := js ''Load failed: '' @ js ''Sheets read failed: 403'' \<rparr>"
    using loadFromSheets_failure_keeps_state [of JSON_parse "Inl (js ''Sheets read failed: 403'')"
      "Inr [deck_row_no_cards]" True example_state]
    by (simp add: loadFromSheets_def promise_all_def)
  let ?L = "loadFromSheets JSON_parse (Inr [island_row, island_row_cut])
              (Inr [deck_row_no_cards, deck_row_cut]) True example_state"
  have c: "collection ?L = List.map_filter (rowToCard JSON_parse) [island_row, island_row_cut]"
    and d: "decks ?L = List.map_filter (\<lambda>r. rowToDeck JSON_parse r (collection ?L))
                          [deck_row_no_cards, deck_row_cut]"
    using loadFromSheets_failure_keeps_state [of JSON_parse "Inr [island_row, island_row_cut]"
      "Inr [deck_row_no_cards, deck_row_cut]" True example_state]
    unfolding Let_def by blast+
  have loaded: "collection ?L = [(card_of_json (JObj []))\<lparr> qty := 3 \<rparr>] \<and>
      decks ?L = [\<lparr> deck_id = Some (js ''1700000000000''), deck_name = Some (js ''Meren''),
                    format = js ''Commander'', commander = [], cards = [] \<rparr>]"
    using c d by (simp only: cs ds)
  from failed loaded show ?thesis by simp
qed


section \<open>Combo scoring\<close>

subsection \<open>Sorting with a comparator\<close>







subsection \<open>The comparator of the combos\<close>











section \<open>Debounced save\<close>

lemma mutate_first:
  assumes "isConfigured p" "timers p = []" "clock p \<le> t"
  shows "pending (mutate t f p) t" "saves (mutate t f p) = saves p" "app (mutate t f p) = f (app p)"
  using assms by (simp_all add: mutate_def advance_def triggerSave_def pending_def Let_def max_def)

lemma mutate_pending:
  assumes "pending p tp" "tp \<le> t" "t < tp + 1500"
  shows "pending (mutate t f p) t" "saves (mutate t f p) = saves p" "app (mutate t f p) = f (app p)"
proof -
  from assms(1) obtain i where p: "isConfigured p" "clock p = tp" "timers p = [(i, tp + 1500)]"
    "saveTimeout p = Some i"
    by (auto simp: pending_def)
  have adv: "advance t p = p\<lparr> clock := t \<rparr>"
    using p assms(2,3) by (simp add: advance_def Let_def max_def)
  show "pending (mutate t f p) t" "saves (mutate t f p) = saves p" "app (mutate t f p) = f (app p)"
    using p by (simp_all add: mutate_def adv triggerSave_def pending_def Let_def)
qed

lemma run_pending:
  assumes "pending p tp" "within_quiet tp (map fst rest)"
  shows "pending (run rest p) (last (tp # map fst rest)) \<and> saves (run rest p) = saves p \<and>
         app (run rest p) = foldl (\<lambda>s (t, f). f s) (app p) rest"
  using assms
proof (induction rest arbitrary: p tp)
  case Nil
  then show ?case by (simp add: run_def)
next
  case (Cons e rest)
  obtain t f where e: "e = (t, f)" by (cases e)
  from Cons.prems e have t: "tp \<le> t" "t < tp + 1500" and q: "within_quiet t (map fst rest)"
    by simp_all
  note m = mutate_pending [OF Cons.prems(1) t, of f]
  from Cons.IH [OF m(1) q] m(2,3) e show ?case
    by (simp add: run_def)
qed

lemma advance_pending:
  assumes "pending p tp"
  shows "T < tp + 1500 \<Longrightarrow> saves (advance T p) = saves p"
    and "tp + 1500 \<le> T \<Longrightarrow> saves (advance T p) = saves p @ [(collection (app p), decks (app p))]"
    and "tp + 1500 \<le> T \<Longrightarrow> timers (advance T p) = []"
  using assms by (auto simp: pending_def advance_def saveToSheets_def Let_def)

lemma unconfigured_step:
  assumes "\<not> isConfigured p"
  shows "\<not> isConfigured (advance t p)" "saves (advance t p) = saves p"
    "\<not> isConfigured (mutate t f p)" "saves (mutate t f p) = saves p"
proof -
  have fold: "foldl (\<lambda>q _. saveToSheets (collection (app q)) (decks (app q)) q) q0 due = q0"
    if "\<not> isConfigured q0" for q0 :: page and due :: "(nat \<times> nat) list"
    using that by (induction due) (simp_all add: saveToSheets_def)
  show a: "\<not> isConfigured (advance t p)" and b: "saves (advance t p) = saves p"
    using assms by (simp_all add: advance_def Let_def fold)
  show "\<not> isConfigured (mutate t f p)" "saves (mutate t f p) = saves p"
    using a b by (simp_all add: mutate_def triggerSave_def Let_def)
qed

lemma unconfigured_run:
  assumes "\<not> isConfigured p"
  shows "\<not> isConfigured (run evs p) \<and> saves (run evs p) = saves p"
  using assms
proof (induction evs arbitrary: p)
  case Nil
  then show ?case by (simp add: run_def)
next
  case (Cons e evs)
  obtain t f where e: "e = (t, f)" by (cases e)
  have "run (e # evs) p = run evs (mutate t f p)" by (simp add: run_def e)
  with Cons.IH [of "mutate t f p"] unconfigured_step(3,4) [OF Cons.prems, of t f]
  show ?case by simp
qed

lemma burst_final:
  "foldl (\<lambda>s (t, f). f s) example_state burst
     = example_state\<lparr> collection := [sol_ring, meren, lightning_bolt\<lparr> qty := 2, addedAt := Some 1000 \<rparr>],
                       decks := [meren_deck\<lparr> cards := [\<lparr> collectionId = Some (js ''c2''), entry_qty = 1 \<rparr>] \<rparr>] \<rparr>"
  by (simp add: burst_def add_bolt_def removeFromCollection_def addToCollection_def num_or_def
      js_add_examples example_defs js_def)

text \<open>
  C6 (as amended). On a configured page without a pending save, let one or more mutating
  operations follow each other, each less than 1500 ms after the one before. While they
  run no save is made and exactly one save timer is pending, due 1500 ms after the last
  mutation (each mutation cancels the timer before it and sets a new one). Before that
  time no save has been made; from that time on exactly one call of \<open>saveToSheets\<close> has
  been made, with the collection and the decks as the last mutation left them. On a page
  that is not configured no sequence of mutations and no lapse of time makes a save.
\<close>

theorem debounce_single_save:
  "(isConfigured p \<and> timers p = [] \<and> clock p \<le> t1 \<and> within_quiet t1 (map fst rest) \<longrightarrow>
     (let events = (t1, f1) # rest;
          p' = run events p;
          tN = fst (last events);
          final = foldl (\<lambda>s (t, f). f s) (app p) events
      in saves p' = saves p \<and>
         (\<exists>i. timers p' = [(i, tN + 1500)] \<and> saveTimeout p' = Some i) \<and>
         (\<forall>T. T < tN + 1500 \<longrightarrow> saves (advance T p') = saves p) \<and>
         (\<forall>T. tN + 1500 \<le> T \<longrightarrow>
            saves (advance T p') = saves p @ [(collection final, decks final)] \<and>
            timers (advance T p') = []))) \<and>
   (\<not> isConfigured p \<longrightarrow>
     (\<forall>evs T. saves (run evs p) = saves p \<and> saves (advance T (run evs p)) = saves p))"
proof (intro conjI impI allI)
  assume u: "\<not> isConfigured p"
  fix evs T
  from unconfigured_run [OF u, of evs]
  show "saves (run evs p) = saves p" "saves (advance T (run evs p)) = saves p"
    by (simp_all add: unconfigured_step)
next
  assume a: "isConfigured p \<and> timers p = [] \<and> clock p \<le> t1 \<and> within_quiet t1 (map fst rest)"
  then have m: "pending (mutate t1 f1 p) t1" "saves (mutate t1 f1 p) = saves p"
    "app (mutate t1 f1 p) = f1 (app p)"
    by (simp_all add: mutate_first)
  from a have q: "within_quiet t1 (map fst rest)" by simp
  let ?p' = "run ((t1, f1) # rest) p"
  let ?tN = "fst (last ((t1, f1) # rest))"
  have r: "?p' = run rest (mutate t1 f1 p)" by (simp add: run_def)
  have tN: "last (t1 # map fst rest) = ?tN"
    by (simp add: last_map)
  from run_pending [OF m(1) q] have p': "pending ?p' ?tN" "saves ?p' = saves p"
    "app ?p' = foldl (\<lambda>s (t, f). f s) (app p) ((t1, f1) # rest)"
    unfolding r tN [symmetric] using m(2,3) by simp_all
  from p'(1) have tm: "\<exists>i. timers ?p' = [(i, ?tN + 1500)] \<and> saveTimeout ?p' = Some i"
    by (simp add: pending_def)
  show "(let events = (t1, f1) # rest;
          p' = run events p;
          tN = fst (last events);
          final = foldl (\<lambda>s (t, f). f s) (app p) events
      in saves p' = saves p \<and>
         (\<exists>i. timers p' = [(i, tN + 1500)] \<and> saveTimeout p' = Some i) \<and>
         (\<forall>T. T < tN + 1500 \<longrightarrow> saves (advance T p') = saves p) \<and>
         (\<forall>T. tN + 1500 \<le> T \<longrightarrow>
            saves (advance T p') = saves p @ [(collection final, decks final)] \<and>
            timers (advance T p') = []))"
    unfolding Let_def using p'(2) tm advance_pending [OF p'(1)] p'(3) by simp
qed


theorem debounce_single_save_witness:
  "saves (run burst (example_page True)) = [] \<and>
   saves (advance 3899 (run burst (example_page True))) = [] \<and>
   saves (advance 3900 (run burst (example_page True)))
     = [([sol_ring, meren, lightning_bolt\<lparr> qty := 2, addedAt := Some 1000 \<rparr>],
         [meren_deck\<lparr> cards := [\<lparr> collectionId = Some (js ''c2''), entry_qty = 1 \<rparr>] \<rparr>])] \<and>
   saves (advance 9000 (run burst (example_page False))) = []"
proof -
  from debounce_single_save [of "example_page False" 0 "[]" id]
  have "\<forall>evs T. saves (run evs (example_page False)) = saves (example_page False) \<and>
      saves (advance T (run evs (example_page False))) = saves (example_page False)"
    by (simp add: example_page_def)
  then have "saves (advance 9000 (run burst (example_page False))) = saves (example_page False)"
    by blast
  then have u: "saves (advance 9000 (run burst (example_page False))) = []"
    by (simp add: example_page_def)
  have hyp: "isConfigured (example_page True) \<and> timers (example_page True) = [] \<and>
      clock (example_page True) \<le> 0 \<and>
      within_quiet 0 (map fst [(1000, add_bolt 1000), (2400, add_bolt 2400)])"
    by (simp add: example_page_def)
  have b: "burst = (0, removeFromCollection (Some (js ''c3''))) # [(1000, add_bolt 1000), (2400, add_bolt 2400)]"
    by (simp add: burst_def)
  from debounce_single_save [of "example_page True" 0 "[(1000, add_bolt 1000), (2400, add_bolt 2400)]"
      "removeFromCollection (Some (js ''c3''))"] hyp
  have s0: "saves (run burst (example_page True)) = saves (example_page True)"
    and s1: "\<forall>T. T < 2400 + 1500 \<longrightarrow> saves (advance T (run burst (example_page True))) = saves (example_page True)"
    and s2: "\<forall>T. 2400 + 1500 \<le> T \<longrightarrow> saves (advance T (run burst (example_page True)))
       = saves (example_page True) @
         [(collection (foldl (\<lambda>s (t, f). f s) (app (example_page True)) burst),
           decks (foldl (\<lambda>s (t, f). f s) (app (example_page True)) burst))]"
    unfolding b [symmetric] Let_def by (simp_all add: b)
  have "saves (advance 3899 (run burst (example_page True))) = saves (example_page True)"
    using s1 by simp
  moreover have "saves (advance 3900 (run burst (example_page True)))
       = saves (example_page True) @
         [(collection (foldl (\<lambda>s (t, f). f s) (app (example_page True)) burst),
           decks (foldl (\<lambda>s (t, f). f s) (app (example_page True)) burst))]"
    using s2 by simp
  moreover have "app (example_page True) = example_state" "saves (example_page True) = []"
    by (simp_all add: example_page_def)
  ultimately show ?thesis using s0 u by (simp add: burst_final)
qed

text \<open>
  The claim as stated promises one save after every burst of mutations. On a page that is
  not configured \<open>triggerSave\<close> returns at once, and no save is ever made.
\<close>

theorem debounce_unconfigured_counterexample:
  "saves (advance 5000 (run [(0, removeFromCollection (Some (js ''c3'')))] (example_page False))) = []"
  by (simp add: run_def mutate_def advance_def triggerSave_def example_page_def Let_def)


end
